theory Spec2Isabelle
  imports Main
begin

section \<open>Strings as the script uses them\<close>

text \<open>
  Python strings are modelled as \<^typ>\<open>string\<close> (lists of 8-bit characters), which covers
  ASCII text exactly. The characters that cannot be typed inside a string literal are named
  by their code.
\<close>

abbreviation dq :: char where "dq \<equiv> CHR 0x22"
abbreviation sq :: char where "sq \<equiv> CHR 0x27"
abbreviation bsl :: char where "bsl \<equiv> CHR 0x5C"
abbreviation nl :: char where "nl \<equiv> CHR 0x0A"
abbreviation cr :: char where "cr \<equiv> CHR 0x0D"
abbreviation esc :: char where "esc \<equiv> CHR 0x1B"

text \<open>\<^verbatim>\<open>s.replace(c, t)\<close> for a one-character pattern \<open>c\<close>: every occurrence is replaced.\<close>

definition replace_char :: "char \<Rightarrow> string \<Rightarrow> string \<Rightarrow> string" where
  "replace_char c t s = concat (map (\<lambda>x. if x = c then t else [x]) s)"

text \<open>\<^verbatim>\<open>s.strip(chars)\<close>: leading and trailing characters of the given set are removed.\<close>

definition strip_chars :: "char set \<Rightarrow> string \<Rightarrow> string" where
  "strip_chars cs s = rev (dropWhile (\<lambda>x. x \<in> cs) (rev (dropWhile (\<lambda>x. x \<in> cs) s)))"

text \<open>
  The ASCII characters that \<^verbatim>\<open>str.strip()\<close> and \<^verbatim>\<open>str.isspace\<close> treat as white space:
  tab, line feed, vertical tab, form feed, carriage return, the four separators
  \<open>0x1C\<close> to \<open>0x1F\<close>, and the space.
\<close>

definition whitespace :: "char set" where
  "whitespace = {CHR 0x09, CHR 0x0A, CHR 0x0B, CHR 0x0C, CHR 0x0D,
                 CHR 0x1C, CHR 0x1D, CHR 0x1E, CHR 0x1F, CHR 0x20}"

definition strip :: "string \<Rightarrow> string" where
  "strip s = strip_chars whitespace s"

text \<open>\<^verbatim>\<open>s.lower()\<close> on ASCII: the letters A to Z move to a to z, everything else stays.\<close>

definition lower_char :: "char \<Rightarrow> char" where
  "lower_char c =
     (case map_of (zip ''ABCDEFGHIJKLMNOPQRSTUVWXYZ'' ''abcdefghijklmnopqrstuvwxyz'') c of
        None \<Rightarrow> c
      | Some l \<Rightarrow> l)"

definition lower :: "string \<Rightarrow> string" where
  "lower s = map lower_char s"

text \<open>\<^verbatim>\<open>sep.join(xs)\<close>.\<close>

fun join :: "string \<Rightarrow> string list \<Rightarrow> string" where
  "join sep [] = []"
| "join sep [x] = x"
| "join sep (x # y # ys) = x @ sep @ join sep (y # ys)"

text \<open>
  \<^verbatim>\<open>s.split(c)\<close> for a one-character separator: the pieces between the occurrences of
  \<open>c\<close>; the result is never empty (\<^verbatim>\<open>''.split(c) == ['']\<close>).
\<close>

fun split_on :: "char \<Rightarrow> string \<Rightarrow> string list" where
  "split_on c [] = [[]]"
| "split_on c (x # xs) =
     (if x = c then [] # split_on c xs
      else (case split_on c xs of
              [] \<Rightarrow> [[x]]
            | p # ps \<Rightarrow> (x # p) # ps))"

text \<open>\<^verbatim>\<open>needle in s\<close> and \<^verbatim>\<open>s.startswith(p)\<close>, \<^verbatim>\<open>s.endswith(p)\<close>.\<close>

fun startswith :: "string \<Rightarrow> string \<Rightarrow> bool" where
  "startswith s [] = True"
| "startswith [] (p # ps) = False"
| "startswith (x # xs) (p # ps) = (x = p \<and> startswith xs ps)"

definition endswith :: "string \<Rightarrow> string \<Rightarrow> bool" where
  "endswith s p = startswith (rev s) (rev p)"

fun contains :: "string \<Rightarrow> string \<Rightarrow> bool" where
  "contains [] needle = (needle = [])"
| "contains (x # xs) needle = (startswith (x # xs) needle \<or> contains xs needle)"

text \<open>\<^verbatim>\<open>str(n)\<close> for a natural number.\<close>

definition digit_char :: "nat \<Rightarrow> char" where
  "digit_char d = ''0123456789'' ! d"

fun str_nat :: "nat \<Rightarrow> string" where
  "str_nat n = (if n < 10 then [digit_char n] else str_nat (n div 10) @ [digit_char (n mod 10)])"

declare str_nat.simps [simp del]

section \<open>Errors\<close>

text \<open>
  Every exception the script can raise is a value. \<open>LibraryError\<close> stands for an exception
  raised inside a library call (the CSV reader, the model client, string formatting).
\<close>

datatype error =
    ValueError string
  | IndexError
  | KeyError string
  | OSError string
  | LibraryError string

section \<open>The CSV reader of the standard library\<close>

text \<open>
  \<^verbatim>\<open>csv.reader(io.StringIO(response), delimiter=delimiter)\<close> is a library call. The
  parser below takes the reader as a parameter \<open>reader\<close>, so that what is proved about the
  parser holds for whatever the library returns. For concrete inputs, \<open>csv_reader\<close> follows
  the state machine of the library's reader in its default (excel, non-strict) dialect:
  quote character \<open>"\<close>, doubled quotes inside quoted fields, no escape character, fields
  limited to 131072 characters. A NUL character in the text, which the library refuses,
  is left out.
\<close>

datatype rstate = START_RECORD | START_FIELD | IN_FIELD | IN_QUOTED_FIELD
  | QUOTE_IN_QUOTED_FIELD | EAT_CRNL

type_synonym reader_state = "rstate \<times> string \<times> string list"

definition parse_add_char :: "char \<Rightarrow> rstate \<Rightarrow> string \<Rightarrow> string list \<Rightarrow> error + reader_state" where
  "parse_add_char c st field fields =
     (if length field \<ge> 131072 then Inl (LibraryError ''field larger than field limit (131072)'')
      else Inr (st, field @ [c], fields))"

definition parse_save_field :: "rstate \<Rightarrow> string \<Rightarrow> string list \<Rightarrow> error + reader_state" where
  "parse_save_field st field fields = Inr (st, [], fields @ [field])"

text \<open>
  One character of a line (\<open>Some c\<close>) or the end of the line (\<open>None\<close>). In the state
  \<open>START_RECORD\<close> a character that is no line break falls through to the case
  \<open>START_FIELD\<close>, here \<open>start_field\<close>.
\<close>

definition start_field :: "char \<Rightarrow> char option \<Rightarrow> string \<Rightarrow> string list \<Rightarrow> error + reader_state" where
  "start_field d x field fields =
     (case x of
        None \<Rightarrow> parse_save_field START_RECORD field fields
      | Some c \<Rightarrow>
          (if c = nl \<or> c = cr then parse_save_field EAT_CRNL field fields
           else if c = dq then Inr (IN_QUOTED_FIELD, field, fields)
           else if c = d then parse_save_field START_FIELD field fields
           else parse_add_char c IN_FIELD field fields))"

fun parse_process_char :: "char \<Rightarrow> char option \<Rightarrow> reader_state \<Rightarrow> error + reader_state" where
  "parse_process_char d None (START_RECORD, field, fields) = Inr (START_RECORD, field, fields)"
| "parse_process_char d (Some c) (START_RECORD, field, fields) =
     (if c = nl \<or> c = cr then Inr (EAT_CRNL, field, fields)
      else start_field d (Some c) field fields)"
| "parse_process_char d x (START_FIELD, field, fields) = start_field d x field fields"
| "parse_process_char d None (IN_FIELD, field, fields) = parse_save_field START_RECORD field fields"
| "parse_process_char d (Some c) (IN_FIELD, field, fields) =
     (if c = nl \<or> c = cr then parse_save_field EAT_CRNL field fields
      else if c = d then parse_save_field START_FIELD field fields
      else parse_add_char c IN_FIELD field fields)"
| "parse_process_char d None (IN_QUOTED_FIELD, field, fields) = Inr (IN_QUOTED_FIELD, field, fields)"
| "parse_process_char d (Some c) (IN_QUOTED_FIELD, field, fields) =
     (if c = dq then Inr (QUOTE_IN_QUOTED_FIELD, field, fields)
      else parse_add_char c IN_QUOTED_FIELD field fields)"
| "parse_process_char d None (QUOTE_IN_QUOTED_FIELD, field, fields) =
     parse_save_field START_RECORD field fields"
| "parse_process_char d (Some c) (QUOTE_IN_QUOTED_FIELD, field, fields) =
     (if c = dq then parse_add_char c IN_QUOTED_FIELD field fields
      else if c = d then parse_save_field START_FIELD field fields
      else if c = nl \<or> c = cr then parse_save_field EAT_CRNL field fields
      else parse_add_char c IN_FIELD field fields)"
| "parse_process_char d None (EAT_CRNL, field, fields) = Inr (START_RECORD, field, fields)"
| "parse_process_char d (Some c) (EAT_CRNL, field, fields) =
     (if c = nl \<or> c = cr then Inr (EAT_CRNL, field, fields)
      else Inl (LibraryError ''new-line character seen in unquoted field''))"

fun process_chars :: "char \<Rightarrow> string \<Rightarrow> reader_state \<Rightarrow> error + reader_state" where
  "process_chars d [] s = parse_process_char d None s"
| "process_chars d (c # cs) s =
     (case parse_process_char d (Some c) s of
        Inl e \<Rightarrow> Inl e
      | Inr s' \<Rightarrow> process_chars d cs s')"

text \<open>
  The lines that iterating over \<^verbatim>\<open>io.StringIO(text)\<close> yields: each ends with its line
  feed, except possibly the last; there is no empty line.
\<close>

fun stringio_lines :: "string \<Rightarrow> string list" where
  "stringio_lines [] = []"
| "stringio_lines (c # cs) =
     (if c = nl then [c] # stringio_lines cs
      else (case stringio_lines cs of
              [] \<Rightarrow> [[c]]
            | l # ls \<Rightarrow> (c # l) # ls))"

fun read_records :: "char \<Rightarrow> string list \<Rightarrow> reader_state \<Rightarrow> error + string list list" where
  "read_records d [] (st, field, fields) =
     (if field \<noteq> [] \<or> st = IN_QUOTED_FIELD then Inr [fields @ [field]] else Inr [])"
| "read_records d (l # ls) s =
     (case process_chars d l s of
        Inl e \<Rightarrow> Inl e
      | Inr (st, field, fields) \<Rightarrow>
          (if st = START_RECORD
           then (case read_records d ls (START_RECORD, [], []) of
                   Inl e \<Rightarrow> Inl e
                 | Inr rs \<Rightarrow> Inr (fields # rs))
           else read_records d ls (st, field, fields)))"

definition csv_reader :: "char \<Rightarrow> string \<Rightarrow> error + string list list" where
  "csv_reader d text = read_records d (stringio_lines text) (START_RECORD, [], [])"

section \<open>ResponseParser: \<open>parse_csv_data\<close>\<close>

text \<open>An agent record is the dictionary the parser builds for one row.\<close>

type_synonym agent = "string \<rightharpoonup> string"

definition header :: "string list" where
  "header = [''filename'', ''role'', ''goal'', ''backstory'', ''assigned_task'', ''allow_delegation'']"

text \<open>\<^verbatim>\<open>header_mapping = {h.lower(): h for h in header}\<close>: a later key replaces an earlier one.\<close>

definition header_mapping :: "string \<rightharpoonup> string" where
  "header_mapping = foldl (\<lambda>m h. m(lower h \<mapsto> h)) Map.empty header"

text \<open>\<^verbatim>\<open>header_indices = [header_mapping.get(h.lower()) for h in header_line]\<close>.\<close>

definition header_indices :: "string list \<Rightarrow> string option list" where
  "header_indices header_line = map (\<lambda>h. header_mapping (lower h)) header_line"

text \<open>
  The inner loop \<^verbatim>\<open>for i, value in enumerate(line)\<close> (lines 57 to 60), started at index
  \<open>i\<close>: \<^verbatim>\<open>header_indices[i]\<close> raises IndexError beyond the header's length; a field is
  stored, \<^verbatim>\<open>strip('"')\<close> applied, when its column name is neither None nor empty.
\<close>

fun assign_fields :: "string option list \<Rightarrow> nat \<Rightarrow> string list \<Rightarrow> agent \<Rightarrow> error + agent" where
  "assign_fields hi i [] agent_data = Inr agent_data"
| "assign_fields hi i (v # vs) agent_data =
     (if i < length hi
      then (case hi ! i of
              None \<Rightarrow> assign_fields hi (Suc i) vs agent_data
            | Some header_name \<Rightarrow>
                (if header_name \<noteq> []
                 then assign_fields hi (Suc i) vs (agent_data(header_name \<mapsto> strip_chars {dq} v))
                 else assign_fields hi (Suc i) vs agent_data))
      else Inl IndexError)"

text \<open>The body of the loop over the data rows (lines 56 to 63), for one row.\<close>

definition parse_line :: "string option list \<Rightarrow> string list \<Rightarrow> string \<Rightarrow> error + agent" where
  "parse_line hi line filename =
     (case assign_fields hi 0 line Map.empty of
        Inl e \<Rightarrow> Inl e
      | Inr agent_data \<Rightarrow>
          (if agent_data ''role'' = None \<or> agent_data ''role'' = Some []
           then Inl (ValueError ''Role component missing in CSV data'')
           else Inr (agent_data(''filename'' \<mapsto> filename))))"

text \<open>The loop \<^verbatim>\<open>for line in lines[1:]\<close>: the first row that raises ends the parse.\<close>

fun parse_lines :: "string option list \<Rightarrow> string list list \<Rightarrow> string \<Rightarrow> error + agent list" where
  "parse_lines hi [] filename = Inr []"
| "parse_lines hi (line # rest) filename =
     (case parse_line hi line filename of
        Inl e \<Rightarrow> Inl e
      | Inr agent_data \<Rightarrow>
          (case parse_lines hi rest filename of
             Inl e \<Rightarrow> Inl e
           | Inr agents_data \<Rightarrow> Inr (agent_data # agents_data)))"

text \<open>
  \<open>parse_csv_data\<close> (lines 44 to 65). \<^verbatim>\<open>lines[0]\<close> raises IndexError when the reader
  returns no row at all.
\<close>

definition parse_csv_data ::
  "(char \<Rightarrow> string \<Rightarrow> error + string list list) \<Rightarrow> string \<Rightarrow> char \<Rightarrow> string \<Rightarrow> error + agent list" where
  "parse_csv_data reader response delimiter filename =
     (case reader delimiter response of
        Inl e \<Rightarrow> Inl e
      | Inr lines \<Rightarrow>
          (case lines of
             [] \<Rightarrow> Inl IndexError
           | header_line # data_lines \<Rightarrow> parse_lines (header_indices header_line) data_lines filename))"

subsection \<open>What the parser computes\<close>

text \<open>
  The pairs that the inner loop stores for a row, in the order it stores them, and the
  dictionary that storing them one after the other gives.
\<close>

definition assigned :: "string option list \<Rightarrow> string list \<Rightarrow> (string \<times> string) list" where
  "assigned his vs =
     concat (map (\<lambda>(ho, v). case ho of None \<Rightarrow> [] | Some h \<Rightarrow> if h \<noteq> [] then [(h, strip_chars {dq} v)] else [])
                 (zip his vs))"

text \<open>
  The fields of a row as the specification words them: a field is kept under the
  lower-cased name of its column when that name is an expected one, wrapping quote
  characters removed; of two columns with the same name the later one counts.
\<close>

definition row_fields :: "string list \<Rightarrow> string list \<Rightarrow> agent" where
  "row_fields header_line line =
     map_of (rev (filter (\<lambda>(k, v). k \<in> set header)
                         (zip (map lower header_line) (map (strip_chars {dq}) line))))"

definition store_all :: "agent \<Rightarrow> (string \<times> string) list \<Rightarrow> agent" where
  "store_all m kvs = foldl (\<lambda>m (k, v). m(k \<mapsto> v)) m kvs"

lemma store_all_Nil: "store_all m [] = m"
  by (simp add: store_all_def)

lemma store_all_Cons: "store_all m ((k, v) # kvs) = store_all (m(k \<mapsto> v)) kvs"
  by (simp add: store_all_def)

lemma store_all_map_of_aux: "\<forall>m. store_all m kvs = m ++ map_of (rev kvs)"
proof (induction kvs)
  case Nil
  show ?case by (simp add: store_all_Nil)
next
  case (Cons kv kvs)
  show ?case
  proof
    fix m :: agent
    obtain k v where kv: "kv = (k, v)" by (cases kv)
    have "store_all m (kv # kvs) = store_all (m(k \<mapsto> v)) kvs"
      by (simp only: kv store_all_Cons)
    also have "\<dots> = (m(k \<mapsto> v)) ++ map_of (rev kvs)"
      using Cons.IH by blast
    also have "\<dots> = m ++ map_of (rev (kv # kvs))"
      unfolding kv by (rule ext) (simp add: map_add_def split: option.splits)
    finally show "store_all m (kv # kvs) = m ++ map_of (rev (kv # kvs))" .
  qed
qed

lemma store_all_map_of: "store_all m kvs = m ++ map_of (rev kvs)"
  using store_all_map_of_aux by blast

lemma assigned_Cons:
  "assigned (ho # his) (v # vs) =
     (case ho of None \<Rightarrow> [] | Some h \<Rightarrow> if h \<noteq> [] then [(h, strip_chars {dq} v)] else [])
     @ assigned his vs"
  by (simp add: assigned_def)

lemma store_all_append: "store_all m (xs @ ys) = store_all (store_all m xs) ys"
  by (simp add: store_all_def)

lemma assign_fields_ok_aux:
  "\<forall>i m. i + length vs \<le> length hi \<longrightarrow>
     assign_fields hi i vs m = Inr (store_all m (assigned (drop i hi) vs))"
proof (induction vs)
  case Nil
  show ?case by (simp add: assigned_def store_all_Nil)
next
  case (Cons v vs)
  show ?case
  proof (intro allI impI)
    fix i and m :: agent
    assume len: "i + length (v # vs) \<le> length hi"
    then have i: "i < length hi" and rest: "Suc i + length vs \<le> length hi" by simp_all
    have d: "drop i hi = hi ! i # drop (Suc i) hi"
      using i by (simp add: Cons_nth_drop_Suc)
    have ih: "assign_fields hi (Suc i) vs m' = Inr (store_all m' (assigned (drop (Suc i) hi) vs))" for m'
      using Cons.IH rest by blast
    show "assign_fields hi i (v # vs) m = Inr (store_all m (assigned (drop i hi) (v # vs)))"
    proof (cases "hi ! i")
      case None
      then show ?thesis using i by (simp add: d assigned_Cons ih store_all_Nil)
    next
      case (Some h)
      show ?thesis
      proof (cases "h = []")
        case True
        then show ?thesis using i Some by (simp add: d assigned_Cons ih store_all_Nil)
      next
        case False
        have "assign_fields hi i (v # vs) m = assign_fields hi (Suc i) vs (m(h \<mapsto> strip_chars {dq} v))"
          using i Some False by simp
        also have "\<dots> = Inr (store_all (m(h \<mapsto> strip_chars {dq} v)) (assigned (drop (Suc i) hi) vs))"
          by (rule ih)
        also have "\<dots> = Inr (store_all m (assigned (drop i hi) (v # vs)))"
          using Some False by (simp only: d assigned_Cons option.case if_True not_False_eq_True store_all_append store_all_Cons store_all_Nil)
        finally show ?thesis .
      qed
    qed
  qed
qed

lemma assign_fields_ok:
  "i + length vs \<le> length hi \<Longrightarrow>
   assign_fields hi i vs m = Inr (store_all m (assigned (drop i hi) vs))"
  using assign_fields_ok_aux by blast

lemma assign_fields_wide:
  "i \<le> length hi \<Longrightarrow> length hi < i + length vs \<Longrightarrow> assign_fields hi i vs m = Inl IndexError"
  by (induction vs arbitrary: i m) (auto split: option.splits)

lemma lower_header: "h \<in> set header \<Longrightarrow> lower h = h"
  by (auto simp: header_def lower_def lower_char_def)

lemma header_mapping_eq: "header_mapping k = (if k \<in> set header then Some k else None)"
  by (simp add: header_mapping_def header_def lower_def lower_char_def)

lemma assigned_header_indices:
  "assigned (header_indices hl) line =
     filter (\<lambda>(k, v). k \<in> set header) (zip (map lower hl) (map (strip_chars {dq}) line))"
proof (induction hl arbitrary: line)
  case Nil
  then show ?case by (simp add: assigned_def header_indices_def)
next
  case (Cons h hl)
  show ?case
  proof (cases line)
    case Nil
    then show ?thesis by (simp add: assigned_def header_indices_def)
  next
    case (Cons v vs)
    have ne: "lower h \<in> set header \<Longrightarrow> lower h \<noteq> []"
      by (auto simp: header_def)
    show ?thesis
      using Cons.IH [of vs] ne
      by (simp add: Cons assigned_def header_indices_def header_mapping_eq)
  qed
qed

text \<open>
  A row supplies its role when a non-empty role field is among its fields; a row is
  accepted when, moreover, it has no more fields than the header row.
\<close>

definition role_supplied :: "string list \<Rightarrow> string list \<Rightarrow> bool" where
  "role_supplied header_line line =
     (case row_fields header_line line ''role'' of None \<Rightarrow> False | Some r \<Rightarrow> r \<noteq> [])"

definition accepted :: "string list \<Rightarrow> string list \<Rightarrow> bool" where
  "accepted header_line line = (length line \<le> length header_line \<and> role_supplied header_line line)"

text \<open>The header row the model is asked for, and the record of a row under it.\<close>

definition csv_header :: "string list" where
  "csv_header = [''role'', ''goal'', ''backstory'', ''assigned_task'', ''allow_delegation'']"

definition agent_of_row :: "string list \<Rightarrow> string \<Rightarrow> agent" where
  "agent_of_row line filename =
     (map_of (zip csv_header (map (strip_chars {dq}) line)))(''filename'' \<mapsto> filename)"

lemma length_header_indices: "length (header_indices hl) = length hl"
  by (simp add: header_indices_def)

lemma parse_line_wide:
  "length hl < length line \<Longrightarrow> parse_line (header_indices hl) line fn = Inl IndexError"
  using assign_fields_wide [of 0 "header_indices hl" line Map.empty]
  by (simp add: parse_line_def length_header_indices)

lemma assign_fields_row_fields:
  "length line \<le> length hl \<Longrightarrow>
   assign_fields (header_indices hl) 0 line Map.empty = Inr (row_fields hl line)"
  using assign_fields_ok [of 0 line "header_indices hl" Map.empty]
  by (simp add: length_header_indices store_all_map_of assigned_header_indices row_fields_def)

lemma parse_line_fits:
  "length line \<le> length hl \<Longrightarrow>
   parse_line (header_indices hl) line fn =
     (if role_supplied hl line then Inr ((row_fields hl line)(''filename'' \<mapsto> fn))
      else Inl (ValueError ''Role component missing in CSV data''))"
  by (auto simp add: parse_line_def assign_fields_row_fields role_supplied_def split: option.splits)


lemma parse_lines_accepted:
  "\<forall>line \<in> set rows. accepted hl line \<Longrightarrow>
   parse_lines (header_indices hl) rows fn =
     Inr (map (\<lambda>line. (row_fields hl line)(''filename'' \<mapsto> fn)) rows)"
  by (induction rows) (simp_all add: accepted_def parse_line_fits)

lemma parse_lines_missing_role:
  assumes "\<forall>l \<in> set pre. length l \<le> length hl"
    and "length line \<le> length hl"
    and "\<not> role_supplied hl line"
  shows "parse_lines (header_indices hl) (pre @ line # post) fn =
           Inl (ValueError ''Role component missing in CSV data'')"
  using assms by (induction pre) (simp_all add: parse_line_fits)

lemma map_of_rev_distinct: "distinct (map fst xs) \<Longrightarrow> map_of (rev xs) = map_of xs"
  by (simp add: map_of_inject_set rev_map [symmetric])

lemma lower_csv_header: "map lower csv_header = csv_header"
  by (simp add: csv_header_def lower_def lower_char_def)

lemma row_fields_csv_header:
  "row_fields csv_header line = map_of (zip csv_header (map (strip_chars {dq}) line))"
proof -
  let ?z = "zip csv_header (map (strip_chars {dq}) line)"
  have sub: "set csv_header \<subseteq> set header"
    by (simp add: csv_header_def header_def)
  have "filter (\<lambda>(k, v). k \<in> set header) ?z = ?z"
    using sub by (auto simp: filter_id_conv dest: set_zip_leftD)
  moreover have "distinct (map fst ?z)"
    by (simp add: map_fst_zip_take csv_header_def)
  ultimately show ?thesis
    by (simp add: row_fields_def lower_csv_header map_of_rev_distinct)
qed

lemma role_supplied_csv_header:
  "role_supplied csv_header line = (line \<noteq> [] \<and> strip_chars {dq} (hd line) \<noteq> [])"
  unfolding role_supplied_def row_fields_csv_header
  by (cases line) (simp_all add: csv_header_def)

subsection \<open>Example responses\<close>

text \<open>\<open>quoted s\<close> is \<open>s\<close> between double quotes, as the model is asked to write each field.\<close>

definition quoted :: "string \<Rightarrow> string" where
  "quoted s = dq # s @ [dq]"

definition example_response :: string where
  "example_response =
     ''role,goal,backstory,assigned_task,allow_delegation'' @ [nl] @
     quoted ''Researcher'' @ '','' @ quoted ''find papers'' @ '','' @ quoted ''veteran analyst'' @ '','' @
     quoted ''scan arxiv'' @ '','' @ quoted ''True'' @ [nl] @
     quoted ''Writer'' @ '','' @ quoted ''write it up'' @ '','' @ quoted ''poet'' @ '','' @
     quoted ''draft'' @ '','' @ quoted ''False''"

lemmas reader_simps = csv_reader_def parse_add_char_def parse_save_field_def start_field_def quoted_def

lemma example_response_rows:
  "csv_reader (CHR '','') example_response =
     Inr [csv_header,
          [''Researcher'', ''find papers'', ''veteran analyst'', ''scan arxiv'', ''True''],
          [''Writer'', ''write it up'', ''poet'', ''draft'', ''False'']]"
  by (simp add: example_response_def reader_simps csv_header_def)

subsection \<open>One record per row\<close>

lemma length_csv_header: "length csv_header = 5"
  by (simp add: csv_header_def)

text \<open>
  Claim C1, as amended. When the reader returns the header row
  \<open>role, goal, backstory, assigned_task, allow_delegation\<close> followed by data rows of which
  every one has at least one and at most five fields and a role field that is not empty
  once its wrapping quotes are removed, \<open>parse_csv_data\<close> returns exactly one record per
  data row, in the order of the rows: the record of a row holds its fields under the
  column names, and the file name.
\<close>

theorem parse_csv_data_one_record_per_row:
  assumes "reader delimiter response = Inr (csv_header # rows)"
    and "\<forall>line \<in> set rows. line \<noteq> [] \<and> length line \<le> 5 \<and> strip_chars {dq} (hd line) \<noteq> []"
  shows "parse_csv_data reader response delimiter filename =
           Inr (map (\<lambda>line. agent_of_row line filename) rows)"
proof -
  have "\<forall>line \<in> set rows. accepted csv_header line"
    using assms(2) by (simp add: accepted_def role_supplied_csv_header length_csv_header)
  then have "parse_lines (header_indices csv_header) rows filename =
               Inr (map (\<lambda>line. (row_fields csv_header line)(''filename'' \<mapsto> filename)) rows)"
    by (rule parse_lines_accepted)
  then show ?thesis
    using assms(1) by (simp add: parse_csv_data_def row_fields_csv_header agent_of_row_def)
qed

theorem parse_csv_data_one_record_per_row_witness:
  "parse_csv_data csv_reader example_response (CHR '','') ''crew-1.csv'' =
     Inr [agent_of_row [''Researcher'', ''find papers'', ''veteran analyst'', ''scan arxiv'', ''True''] ''crew-1.csv'',
          agent_of_row [''Writer'', ''write it up'', ''poet'', ''draft'', ''False''] ''crew-1.csv'']"
  using parse_csv_data_one_record_per_row
          [of csv_reader "CHR '',''" example_response _ "''crew-1.csv''", OF example_response_rows]
  by (simp add: strip_chars_def)

text \<open>
  Claim C1 as stated asks only for one data row with a role. The response below has the
  stated header and a first data row with a role; its second data row has an empty role,
  and the parser raises instead of returning two records.
\<close>

definition second_row_no_role_response :: string where
  "second_row_no_role_response =
     ''role,goal,backstory,assigned_task,allow_delegation'' @ [nl] @
     ''Researcher,find papers,veteran analyst,scan arxiv,True'' @ [nl] @
     '',write it up,poet,draft,False''"

theorem parse_csv_data_one_record_per_row_counterexample:
  "csv_reader (CHR '','') second_row_no_role_response =
     Inr [csv_header,
          [''Researcher'', ''find papers'', ''veteran analyst'', ''scan arxiv'', ''True''],
          [[], ''write it up'', ''poet'', ''draft'', ''False'']]
   \<and> parse_csv_data csv_reader second_row_no_role_response (CHR '','') ''crew-1.csv'' =
       Inl (ValueError ''Role component missing in CSV data'')"
proof -
  let ?ok = "[''Researcher'', ''find papers'', ''veteran analyst'', ''scan arxiv'', ''True'']"
  let ?bad = "[[], ''write it up'', ''poet'', ''draft'', ''False'']"
  have r: "csv_reader (CHR '','') second_row_no_role_response = Inr [csv_header, ?ok, ?bad]"
    by (simp add: second_row_no_role_response_def reader_simps csv_header_def)
  have "\<not> role_supplied csv_header ?bad"
    by (simp add: role_supplied_csv_header strip_chars_def)
  then have "parse_lines (header_indices csv_header) ([?ok] @ ?bad # []) ''crew-1.csv'' =
               Inl (ValueError ''Role component missing in CSV data'')"
    by (intro parse_lines_missing_role) (simp_all add: length_csv_header)
  then show ?thesis
    using r by (simp add: parse_csv_data_def)
qed

subsection \<open>A row without a role\<close>

text \<open>
  Claim C2, as amended. When a data row supplies no role (the role field is absent, or
  empty once its wrapping quotes are removed) and neither that row nor any row before it
  has more fields than the header row, \<open>parse_csv_data\<close> raises the validation error
  \<open>Role component missing in CSV data\<close>, whatever the other fields of the row hold.
\<close>

theorem missing_role_is_value_error:
  assumes "reader delimiter response = Inr (header_line # pre @ line # post)"
    and "\<forall>l \<in> set (pre @ [line]). length l \<le> length header_line"
    and "\<not> role_supplied header_line line"
  shows "parse_csv_data reader response delimiter filename =
           Inl (ValueError ''Role component missing in CSV data'')"
  using assms by (simp add: parse_csv_data_def parse_lines_missing_role)

definition no_role_response :: string where
  "no_role_response =
     ''Role,Goal'' @ [nl] @ ''Planner,plan the trip'' @ [nl] @ quoted [] @ '',book the hotel'' @ [nl] @ ''Guide,lead''"

lemma no_role_response_rows:
  "csv_reader (CHR '','') no_role_response =
     Inr ([''Role'', ''Goal''] # [[''Planner'', ''plan the trip'']] @ [[], ''book the hotel''] # [[''Guide'', ''lead'']])"
  by (simp add: no_role_response_def reader_simps)

theorem missing_role_is_value_error_witness:
  "parse_csv_data csv_reader no_role_response (CHR '','') ''crew-1.csv'' =
     Inl (ValueError ''Role component missing in CSV data'')"
  using missing_role_is_value_error
          [of csv_reader "CHR '',''" no_role_response "[''Role'', ''Goal'']" "[[''Planner'', ''plan the trip'']]"
              "[[], ''book the hotel'']" "[[''Guide'', ''lead'']]" "''crew-1.csv''", OF no_role_response_rows]
  by (simp add: role_supplied_def row_fields_def header_def lower_def lower_char_def strip_chars_def)

text \<open>
  Claim C2 as stated covers every row without a role. The data row below has an empty
  role and one field more than the header: the parser raises IndexError while it assigns
  the fields, before it looks at the role.
\<close>

definition wide_no_role_response :: string where
  "wide_no_role_response = ''role,goal'' @ [nl] @ '',plan,extra''"

theorem missing_role_counterexample:
  "csv_reader (CHR '','') wide_no_role_response = Inr [[''role'', ''goal''], [[], ''plan'', ''extra'']]
   \<and> parse_csv_data csv_reader wide_no_role_response (CHR '','') ''crew-1.csv'' = Inl IndexError"
proof -
  have r: "csv_reader (CHR '','') wide_no_role_response = Inr [[''role'', ''goal''], [[], ''plan'', ''extra'']]"
    by (simp add: wide_no_role_response_def reader_simps)
  have "parse_line (header_indices [''role'', ''goal'']) [[], ''plan'', ''extra''] ''crew-1.csv'' = Inl IndexError"
    by (rule parse_line_wide) simp
  then show ?thesis
    using r by (simp add: parse_csv_data_def)
qed


subsection \<open>A row shorter than the header\<close>



definition short_row_response :: string where
  "short_row_response =
     ''role,goal,backstory,assigned_task,allow_delegation'' @ [nl] @ ''Researcher,find papers''"

lemma short_row_response_rows:
  "csv_reader (CHR '','') short_row_response = Inr (csv_header # [] @ [''Researcher'', ''find papers''] # [])"
  by (simp add: short_row_response_def reader_simps csv_header_def)


subsection \<open>A row wider than the header\<close>








section \<open>Identifier derivation\<close>

text \<open>
  Line 69, and again lines 87, 99, 106 and 294 of the script:
  \<^verbatim>\<open>role.replace(' ', '_').replace('-', '_').replace('.', '_')\<close>.
\<close>

definition role_var :: "string \<Rightarrow> string" where
  "role_var role =
     replace_char (CHR ''.'') ''_'' (replace_char (CHR ''-'') ''_'' (replace_char (CHR '' '') ''_'' role))"

definition get_task_var_name :: "string \<Rightarrow> string" where
  "get_task_var_name role =
     ''task_'' @ replace_char (CHR ''.'') ''_'' (replace_char (CHR ''-'') ''_'' (replace_char (CHR '' '') ''_'' role))"

text \<open>
  The derivation as the specification words it: every space, hyphen and period becomes
  an underscore.
\<close>

definition derive :: "string \<Rightarrow> string" where
  "derive s = map (\<lambda>c. if c = CHR '' '' \<or> c = CHR ''-'' \<or> c = CHR ''.'' then CHR ''_'' else c) s"

lemma replace_char_single: "replace_char c [d] s = map (\<lambda>x. if x = c then d else x) s"
  by (induction s) (simp_all add: replace_char_def)

lemma role_var_derive: "role_var s = derive s"
  by (induction s) (simp_all add: role_var_def derive_def replace_char_single)

lemma get_task_var_name_derive: "get_task_var_name s = ''task_'' @ derive s"
  using role_var_derive [of s] by (simp add: get_task_var_name_def role_var_def)

lemma derive_idem: "derive (derive s) = derive s"
  by (induction s) (simp_all add: derive_def)

text \<open>
  Claim C5. The identifier derivation of the script (\<open>role_var\<close>) is defined on every
  string, replaces exactly the spaces, hyphens and periods by underscores (it is the
  character-wise \<open>derive\<close>), and applying it twice gives the same result as applying it
  once.
\<close>

theorem role_var_idempotent:
  "role_var (role_var s) = role_var s \<and> role_var s = derive s \<and> length (role_var s) = length s"
  by (simp add: role_var_derive derive_idem) (simp add: derive_def)

section \<open>ScriptEmitter: \<open>define_agent\<close> and \<open>define_task\<close>\<close>

text \<open>
  \<open>define_agent\<close> (lines 68 to 83). A missing key raises KeyError, in the order in which
  the function reads the keys: \<open>role\<close>, \<open>backstory\<close>, \<open>allow_delegation\<close>, \<open>goal\<close>.
\<close>

definition define_agent :: "agent \<Rightarrow> string \<Rightarrow> error + string" where
  "define_agent agent search_tool =
     (case agent ''role'' of
        None \<Rightarrow> Inl (KeyError ''role'')
      | Some role \<Rightarrow>
     (case agent ''backstory'' of
        None \<Rightarrow> Inl (KeyError ''backstory'')
      | Some agent_backstory \<Rightarrow>
     (case agent ''allow_delegation'' of
        None \<Rightarrow> Inl (KeyError ''allow_delegation'')
      | Some allow_delegation \<Rightarrow>
     (case agent ''goal'' of
        None \<Rightarrow> Inl (KeyError ''goal'')
      | Some goal \<Rightarrow>
          (let role_var = replace_char (CHR ''.'') ''_'' (replace_char (CHR ''-'') ''_''
                            (replace_char (CHR '' '') ''_'' role));
               role_value = replace_char sq [bsl, sq] (replace_char dq [bsl, dq] role);
               backstory = replace_char sq [bsl, sq] (replace_char dq [bsl, dq] agent_backstory);
               delegation = (if allow_delegation = ''True'' then ''True'' else ''False'')
           in Inr (role_var @ '' = Agent('' @ [nl] @
                   ''    role='' @ [dq] @ role_value @ [dq] @ '','' @ [nl] @
                   ''    goal='' @ [dq] @ goal @ [dq] @ '','' @ [nl] @
                   ''    backstory='' @ [dq] @ backstory @ [dq] @ '','' @ [nl] @
                   ''    verbose=True,'' @ [nl] @
                   ''    allow_delegation='' @ delegation @ '','' @ [nl] @
                   ''    llm=ollama_openhermes,'' @ [nl] @
                   ''    tools=['' @ search_tool @ '']'' @ [nl] @
                   '')'' @ [nl, nl]))))))"

text \<open>\<open>define_task\<close> (lines 90 to 102); the keys are read in the order \<open>role\<close>, \<open>assigned_task\<close>.\<close>

definition define_task :: "agent \<Rightarrow> error + string" where
  "define_task agent =
     (case agent ''role'' of
        None \<Rightarrow> Inl (KeyError ''role'')
      | Some role \<Rightarrow>
     (case agent ''assigned_task'' of
        None \<Rightarrow> Inl (KeyError ''assigned_task'')
      | Some assigned_task \<Rightarrow>
          (let task_var = get_task_var_name role;
               task_description = replace_char dq [bsl, dq] (strip assigned_task)
           in Inr (task_var @ '' = Task('' @ [nl] @
                   '' description='' @ [dq] @ task_description @ [dq] @ '','' @ [nl] @
                   '' agent='' @ replace_char (CHR ''.'') ''_'' (replace_char (CHR ''-'') ''_''
                                   (replace_char (CHR '' '') ''_'' role)) @ '','' @ [nl] @
                   '' verbose=True,'' @ [nl] @
                   '')'' @ [nl, nl]))))"

subsection \<open>Escaping, as the specification words it\<close>

text \<open>
  \<open>escape E s\<close> puts a backslash before every character of \<open>s\<close> that is in \<open>E\<close>;
  \<open>quotes_escaped Q s\<close> holds when every character of \<open>s\<close> that is in \<open>Q\<close> comes
  directly after a backslash.
\<close>

definition escape :: "char set \<Rightarrow> string \<Rightarrow> string" where
  "escape E s = concat (map (\<lambda>c. if c \<in> E then [bsl, c] else [c]) s)"

fun quotes_escaped_from :: "char set \<Rightarrow> bool \<Rightarrow> string \<Rightarrow> bool" where
  "quotes_escaped_from Q after_backslash [] = True"
| "quotes_escaped_from Q after_backslash (c # cs) =
     ((c \<in> Q \<longrightarrow> after_backslash) \<and> quotes_escaped_from Q (c = bsl) cs)"

definition quotes_escaped :: "char set \<Rightarrow> string \<Rightarrow> bool" where
  "quotes_escaped Q s = quotes_escaped_from Q False s"

lemma replace_dq: "replace_char dq [bsl, dq] s = escape {dq} s"
  by (induction s) (simp_all add: replace_char_def escape_def)

lemma replace_dq_sq: "replace_char sq [bsl, sq] (replace_char dq [bsl, dq] s) = escape {dq, sq} s"
  by (induction s) (simp_all add: replace_char_def escape_def)

lemma quotes_escaped_from_escape:
  "bsl \<notin> E \<Longrightarrow> quotes_escaped_from E p (escape E s)"
  by (induction s arbitrary: p) (auto simp: escape_def)

lemma quotes_escaped_escape: "bsl \<notin> E \<Longrightarrow> quotes_escaped E (escape E s)"
  by (simp add: quotes_escaped_def quotes_escaped_from_escape)


text \<open>A record is complete when it has the five fields that the emitter reads.\<close>

definition complete :: "agent \<Rightarrow> bool" where
  "complete a = (a ''role'' \<noteq> None \<and> a ''goal'' \<noteq> None \<and> a ''backstory'' \<noteq> None
                 \<and> a ''assigned_task'' \<noteq> None \<and> a ''allow_delegation'' \<noteq> None)"

text \<open>
  The names and the two blocks of text of one record, as the specification words them:
  the names are derived from the role, and each string literal is its field between
  double quotes.
\<close>

definition agent_name :: "agent \<Rightarrow> string" where
  "agent_name a = derive (the (a ''role''))"

definition task_name :: "agent \<Rightarrow> string" where
  "task_name a = ''task_'' @ agent_name a"

definition agent_block :: "agent \<Rightarrow> string \<Rightarrow> string" where
  "agent_block a search_tool =
     agent_name a @ '' = Agent('' @ [nl] @
     ''    role='' @ [dq] @ escape {dq, sq} (the (a ''role'')) @ [dq] @ '','' @ [nl] @
     ''    goal='' @ [dq] @ the (a ''goal'') @ [dq] @ '','' @ [nl] @
     ''    backstory='' @ [dq] @ escape {dq, sq} (the (a ''backstory'')) @ [dq] @ '','' @ [nl] @
     ''    verbose=True,'' @ [nl] @
     ''    allow_delegation='' @ (if a ''allow_delegation'' = Some ''True'' then ''True'' else ''False'') @ '','' @ [nl] @
     ''    llm=ollama_openhermes,'' @ [nl] @
     ''    tools=['' @ search_tool @ '']'' @ [nl] @
     '')'' @ [nl, nl]"

definition task_block :: "agent \<Rightarrow> string" where
  "task_block a =
     task_name a @ '' = Task('' @ [nl] @
     '' description='' @ [dq] @ escape {dq} (strip (the (a ''assigned_task''))) @ [dq] @ '','' @ [nl] @
     '' agent='' @ agent_name a @ '','' @ [nl] @
     '' verbose=True,'' @ [nl] @
     '')'' @ [nl, nl]"

lemma define_agent_complete:
  "complete a \<Longrightarrow> define_agent a search_tool = Inr (agent_block a search_tool)"
  by (auto simp add: complete_def define_agent_def agent_block_def agent_name_def replace_dq_sq
        role_var_derive [unfolded role_var_def])

lemma define_task_complete:
  "complete a \<Longrightarrow> define_task a = Inr (task_block a)"
  by (auto simp add: complete_def define_task_def task_block_def task_name_def agent_name_def replace_dq
        get_task_var_name_derive role_var_derive [unfolded role_var_def])


section \<open>The world outside the script\<close>

text \<open>
  What the script gets from outside is a record of oracles: the CSV reader, the replies of
  the model client (the reply to the \<open>n\<close>-th prompt), the formatted time at the \<open>n\<close>-th
  reading of the clock, the working directory and its listing, the line typed at the
  prompt, the outcome of the version check (\<open>Inl\<close> the message of the swallowed exception),
  the order in which a set of paths is iterated, whether a file can be opened for writing
  (\<open>Some\<close> the exception otherwise), \<^verbatim>\<open>str.format\<close> on the instruction, the row format of
  \<^verbatim>\<open>csv.writer\<close> and \<^verbatim>\<open>str\<close> of a list of paths.
\<close>

record env =
  csv_lib_reader :: "char \<Rightarrow> string \<Rightarrow> error + string list list"
  ollama_invoke :: "nat \<Rightarrow> string \<Rightarrow> error + string"
  strftime_now :: "nat \<Rightarrow> string"
  os_getcwd :: string
  os_listdir :: "string list"
  stdin_input :: "error + string"
  latest_release :: "string + string option"
  set_iteration :: "string list \<Rightarrow> string list"
  open_for_writing :: "string \<Rightarrow> error option"
  str_format :: "string \<Rightarrow> string \<Rightarrow> char \<Rightarrow> error + string"
  csv_writer_row :: "string list \<Rightarrow> string"
  str_of_list :: "string list \<Rightarrow> string"

text \<open>
  What the script does to the outside is recorded in the world: the texts printed, the
  tracebacks printed, the files (content under the path as it is given to \<^verbatim>\<open>open\<close>), the
  prompts given to the model client in order, the shell commands run, and how often the
  clock was read.
\<close>

record world =
  printed :: "string list"
  tracebacks :: "error list"
  files :: "string \<rightharpoonup> string"
  invoked :: "string list"
  executed :: "string list"
  clock_reads :: nat

definition print_line :: "string \<Rightarrow> world \<Rightarrow> world" where
  "print_line s w = w\<lparr>printed := printed w @ [s]\<rparr>"

section \<open>ScriptEmitter: \<open>write_crewai_script\<close>\<close>

text \<open>The role variables of line 106; a record without a role raises KeyError.\<close>

fun crew_agents_of :: "agent list \<Rightarrow> error + string list" where
  "crew_agents_of [] = Inr []"
| "crew_agents_of (agent # rest) =
     (case agent ''role'' of
        None \<Rightarrow> Inl (KeyError ''role'')
      | Some role \<Rightarrow>
          (case crew_agents_of rest of
             Inl e \<Rightarrow> Inl e
           | Inr names \<Rightarrow>
               Inr (replace_char (CHR ''.'') ''_'' (replace_char (CHR ''-'') ''_''
                      (replace_char (CHR '' '') ''_'' role)) # names)))"

text \<open>The task variables of line 294 of \<open>main\<close>.\<close>

fun crew_tasks_of :: "agent list \<Rightarrow> error + string list" where
  "crew_tasks_of [] = Inr []"
| "crew_tasks_of (agent # rest) =
     (case agent ''role'' of
        None \<Rightarrow> Inl (KeyError ''role'')
      | Some role \<Rightarrow>
          (case crew_tasks_of rest of
             Inl e \<Rightarrow> Inl e
           | Inr names \<Rightarrow>
               Inr ((''task_'' @ replace_char (CHR ''.'') ''_'' (replace_char (CHR ''-'') ''_''
                      (replace_char (CHR '' '') ''_'' role))) # names)))"

definition script_preamble :: string where
  "script_preamble =
     ''import os'' @ [nl] @
     ''from langchain_community.chat_models import ChatOpenAI'' @ [nl] @
     ''from langchain_community.llms import Ollama'' @ [nl] @
     ''from langchain_community.tools import DuckDuckGoSearchRun'' @ [nl] @
     ''from crewai import Agent, Task, Crew, Process'' @ [nl, nl] @
     ''os.environ['' @ [dq] @ ''OPENAI_API_KEY'' @ [dq] @ ''] = '' @ [dq] @ ''your_OPENAI_api_key_here'' @ [dq] @ [nl, nl] @
     ''ollama_openhermes = Ollama(model='' @ [dq] @ ''openhermes'' @ [dq] @ '')'' @ [nl] @
     ''search_tool = DuckDuckGoSearchRun()'' @ [nl, nl]"

definition crew_block :: "string \<Rightarrow> string \<Rightarrow> string" where
  "crew_block crew_agents crew_tasks =
     ''crew = Crew('' @ [nl] @
     ''    agents=['' @ crew_agents @ ''],'' @ [nl] @
     ''    tasks=['' @ crew_tasks @ ''],'' @ [nl] @
     ''    verbose=True,'' @ [nl] @
     ''    process=Process.sequential,'' @ [nl] @
     '')'' @ [nl, nl] @
     ''# Kickoff the crew tasks'' @ [nl] @
     ''result = crew.kickoff()'' @ [nl, nl] @
     ''# Handle the '' @ [dq] @ ''result'' @ [dq] @ '' as needed'' @ [nl]"

text \<open>
  The two loops of lines 119 to 125: each block is written, then a line feed; the first
  record that raises ends the writing, and what was written so far stays in the file.
\<close>

fun write_blocks :: "(agent \<Rightarrow> error + string) \<Rightarrow> agent list \<Rightarrow> string \<Rightarrow> error option \<times> string" where
  "write_blocks f [] text = (None, text)"
| "write_blocks f (agent # rest) text =
     (case f agent of
        Inl e \<Rightarrow> (Some e, text)
      | Inr block \<Rightarrow> write_blocks f rest (text @ block @ [nl]))"

definition write_crewai_script ::
  "env \<Rightarrow> agent list \<Rightarrow> string \<Rightarrow> string \<Rightarrow> world \<Rightarrow> error option \<times> world" where
  "write_crewai_script e agents_data crew_tasks file_name w =
     (case crew_agents_of agents_data of
        Inl err \<Rightarrow> (Some err, w)
      | Inr names \<Rightarrow>
          (case open_for_writing e file_name of
             Some err \<Rightarrow> (Some err, w)
           | None \<Rightarrow>
               (let crew_agents = join '', '' names;
                    (r1, text1) = write_blocks (\<lambda>agent. define_agent agent ''search_tool'') agents_data script_preamble
                in case r1 of
                     Some err \<Rightarrow> (Some err, w\<lparr>files := (files w)(file_name \<mapsto> text1)\<rparr>)
                   | None \<Rightarrow>
                       (let (r2, text2) = write_blocks define_task agents_data text1
                        in case r2 of
                             Some err \<Rightarrow> (Some err, w\<lparr>files := (files w)(file_name \<mapsto> text2)\<rparr>)
                           | None \<Rightarrow>
                               (None, w\<lparr>files := (files w)(file_name \<mapsto> text2 @ crew_block crew_agents crew_tasks)\<rparr>)))))"

text \<open>Lines 294 and 296 of \<open>main\<close>: the task list is built, then the script is written.\<close>

definition emit_script :: "env \<Rightarrow> agent list \<Rightarrow> string \<Rightarrow> world \<Rightarrow> error option \<times> world" where
  "emit_script e agents_data crewai_script_path w =
     (case crew_tasks_of agents_data of
        Inl err \<Rightarrow> (Some err, w)
      | Inr names \<Rightarrow> write_crewai_script e agents_data (join '', '' names) crewai_script_path w)"

text \<open>The blocks of all records put together, with the preamble and the crew.\<close>

definition script_text :: "agent list \<Rightarrow> string" where
  "script_text agents =
     script_preamble
     @ concat (map (\<lambda>a. agent_block a ''search_tool'' @ [nl]) agents)
     @ concat (map (\<lambda>a. task_block a @ [nl]) agents)
     @ crew_block (join '', '' (map agent_name agents)) (join '', '' (map task_name agents))"

lemma crew_agents_of_complete:
  "\<forall>a \<in> set agents. complete a \<Longrightarrow> crew_agents_of agents = Inr (map agent_name agents)"
  by (induction agents)
     (auto simp: complete_def agent_name_def role_var_derive [unfolded role_var_def])

lemma crew_tasks_of_complete:
  "\<forall>a \<in> set agents. complete a \<Longrightarrow> crew_tasks_of agents = Inr (map task_name agents)"
  by (induction agents)
     (auto simp: complete_def task_name_def agent_name_def role_var_derive [unfolded role_var_def])

lemma write_blocks_complete:
  "\<forall>a \<in> set agents. f a = Inr (g a) \<Longrightarrow>
   write_blocks f agents written = (None, written @ concat (map (\<lambda>a. g a @ [nl]) agents))"
  by (induction agents arbitrary: written) simp_all

lemma emit_script_complete:
  assumes "\<forall>a \<in> set agents. complete a"
    and "open_for_writing e path = None"
  shows "emit_script e agents path w = (None, w\<lparr>files := (files w)(path \<mapsto> script_text agents)\<rparr>)"
proof -
  have a: "write_blocks (\<lambda>agent. define_agent agent ''search_tool'') agents script_preamble =
             (None, script_preamble @ concat (map (\<lambda>a. agent_block a ''search_tool'' @ [nl]) agents))"
    using assms(1) by (intro write_blocks_complete) (simp add: define_agent_complete)
  have t: "write_blocks define_task agents written =
             (None, written @ concat (map (\<lambda>a. task_block a @ [nl]) agents))" for written
    using assms(1) by (intro write_blocks_complete) (simp add: define_task_complete)
  show ?thesis
    using assms
    by (simp add: emit_script_def write_crewai_script_def crew_agents_of_complete
          crew_tasks_of_complete a t script_text_def)
qed

lemma write_blocks_None:
  "fst (write_blocks f agents written) = None \<Longrightarrow> \<forall>a \<in> set agents. \<exists>b. f a = Inr b"
  by (induction agents arbitrary: written) (auto split: sum.splits)

lemma define_agent_Inr:
  "define_agent a search_tool = Inr b \<Longrightarrow>
   a ''role'' \<noteq> None \<and> a ''backstory'' \<noteq> None \<and> a ''allow_delegation'' \<noteq> None \<and> a ''goal'' \<noteq> None"
  by (auto simp: define_agent_def split: option.splits)

lemma define_task_Inr:
  "define_task a = Inr b \<Longrightarrow> a ''role'' \<noteq> None \<and> a ''assigned_task'' \<noteq> None"
  by (auto simp: define_task_def split: option.splits)

lemma emit_script_None:
  assumes "fst (emit_script e agents path w) = None"
  shows "\<forall>a \<in> set agents. complete a"
proof -
  obtain tasks where "crew_tasks_of agents = Inr tasks"
    using assms by (cases "crew_tasks_of agents") (simp_all add: emit_script_def)
  then have w: "fst (write_crewai_script e agents (join '', '' tasks) path w) = None"
    using assms by (simp add: emit_script_def)
  obtain names where n: "crew_agents_of agents = Inr names"
    using w by (cases "crew_agents_of agents") (simp_all add: write_crewai_script_def)
  have o: "open_for_writing e path = None"
    using w n by (cases "open_for_writing e path") (simp_all add: write_crewai_script_def)
  obtain r1 text1 where b1:
    "write_blocks (\<lambda>agent. define_agent agent ''search_tool'') agents script_preamble = (r1, text1)"
    by (cases "write_blocks (\<lambda>agent. define_agent agent ''search_tool'') agents script_preamble")
  have r1: "r1 = None"
    using w n o b1 by (cases r1) (simp_all add: write_crewai_script_def)
  obtain r2 text2 where b2: "write_blocks define_task agents text1 = (r2, text2)"
    by (cases "write_blocks define_task agents text1")
  have r2: "r2 = None"
    using w n o b1 r1 b2 by (cases r2) (simp_all add: write_crewai_script_def)
  have "\<forall>a \<in> set agents. \<exists>b. define_agent a ''search_tool'' = Inr b"
    using write_blocks_None [of "\<lambda>agent. define_agent agent ''search_tool''" agents script_preamble] b1 r1
    by simp
  moreover have "\<forall>a \<in> set agents. \<exists>b. define_task a = Inr b"
    using write_blocks_None [of define_task agents text1] b2 r2 by simp
  ultimately show ?thesis
    unfolding complete_def using define_agent_Inr define_task_Inr by blast
qed

text \<open>
  The names of a list between separators, and the lines of a record's two blocks that
  come after its names, as the specification words them.
\<close>

definition separated_by :: "string \<Rightarrow> string list \<Rightarrow> string" where
  "separated_by sep xs = (case xs of [] \<Rightarrow> [] | x # rest \<Rightarrow> x @ concat (map (\<lambda>y. sep @ y) rest))"

definition agent_arguments :: "agent \<Rightarrow> string \<Rightarrow> string" where
  "agent_arguments a search_tool =
     ''    role='' @ [dq] @ escape {dq, sq} (the (a ''role'')) @ [dq] @ '','' @ [nl] @
     ''    goal='' @ [dq] @ the (a ''goal'') @ [dq] @ '','' @ [nl] @
     ''    backstory='' @ [dq] @ escape {dq, sq} (the (a ''backstory'')) @ [dq] @ '','' @ [nl] @
     ''    verbose=True,'' @ [nl] @
     ''    allow_delegation='' @ (if a ''allow_delegation'' = Some ''True'' then ''True'' else ''False'') @ '','' @ [nl] @
     ''    llm=ollama_openhermes,'' @ [nl] @
     ''    tools=['' @ search_tool @ '']'' @ [nl] @
     '')'' @ [nl, nl]"

definition task_description_line :: "agent \<Rightarrow> string" where
  "task_description_line a =
     '' description='' @ [dq] @ escape {dq} (strip (the (a ''assigned_task''))) @ [dq] @ '','' @ [nl]"

lemma join_separated_by: "join sep xs = separated_by sep xs"
  by (induction sep xs rule: join.induct) (simp_all add: separated_by_def)

lemma agent_block_names:
  "agent_block a search_tool = agent_name a @ '' = Agent('' @ [nl] @ agent_arguments a search_tool"
  by (simp add: agent_block_def agent_arguments_def)

lemma task_block_names:
  "task_block a = task_name a @ '' = Task('' @ [nl] @ task_description_line a @
                  '' agent='' @ agent_name a @ '','' @ [nl] @ '' verbose=True,'' @ [nl] @ '')'' @ [nl, nl]"
  by (simp add: task_block_def task_description_line_def)

lemma script_text_spelled:
  "script_text agents =
              ''import os'' @ [nl] @
              ''from langchain_community.chat_models import ChatOpenAI'' @ [nl] @
              ''from langchain_community.llms import Ollama'' @ [nl] @
              ''from langchain_community.tools import DuckDuckGoSearchRun'' @ [nl] @
              ''from crewai import Agent, Task, Crew, Process'' @ [nl, nl] @
              ''os.environ['' @ [dq] @ ''OPENAI_API_KEY'' @ [dq] @ ''] = '' @ [dq] @ ''your_OPENAI_api_key_here'' @ [dq, nl, nl] @
              ''ollama_openhermes = Ollama(model='' @ [dq] @ ''openhermes'' @ [dq] @ '')'' @ [nl] @
              ''search_tool = DuckDuckGoSearchRun()'' @ [nl, nl]
              @ concat (map (\<lambda>a. agent_name a @ '' = Agent('' @ [nl] @ agent_arguments a ''search_tool'' @ [nl]) agents)
              @ concat (map (\<lambda>a. task_name a @ '' = Task('' @ [nl] @ task_description_line a @
                                  '' agent='' @ agent_name a @ '','' @ [nl] @
                                  '' verbose=True,'' @ [nl] @ '')'' @ [nl, nl] @ [nl]) agents)
              @ ''crew = Crew('' @ [nl] @
              ''    agents=['' @ separated_by '', '' (map agent_name agents) @ ''],'' @ [nl] @
              ''    tasks=['' @ separated_by '', '' (map task_name agents) @ ''],'' @ [nl] @
              ''    verbose=True,'' @ [nl] @
              ''    process=Process.sequential,'' @ [nl] @
              '')'' @ [nl, nl] @
              ''# Kickoff the crew tasks'' @ [nl] @
              ''result = crew.kickoff()'' @ [nl, nl] @
              ''# Handle the '' @ [dq] @ ''result'' @ [dq] @ '' as needed'' @ [nl]"
  by (simp add: script_text_def script_preamble_def crew_block_def agent_block_names task_block_names
        join_separated_by)

text \<open>
  Claim C4, as amended. Let the script file be one that can be opened. Lines 294 and 296
  of \<open>main\<close> write the script without raising exactly when every record of the list is
  complete, and for every list of complete records the file written is the text below:
  one agent block and one task block per record, in the order of the records, and the
  crew with one agent name and one task name per record. The agent name is the role with
  its spaces, hyphens and periods replaced by underscores, the task name is that name
  after \<open>task_\<close>; the same agent name stands where the agent is constructed, in the
  agent reference of its task and in the crew's list of agents, and the same task name
  stands where the task is constructed and in the crew's list of tasks.
\<close>

theorem emitted_names_consistent:
  assumes "open_for_writing e path = None"
  shows "(fst (emit_script e agents path w) = None \<longleftrightarrow> (\<forall>a \<in> set agents. complete a))
       \<and> ((\<forall>a \<in> set agents. complete a) \<longrightarrow>
            emit_script e agents path w =
              (None, w\<lparr>files := (files w)(path \<mapsto>
              ''import os'' @ [nl] @
              ''from langchain_community.chat_models import ChatOpenAI'' @ [nl] @
              ''from langchain_community.llms import Ollama'' @ [nl] @
              ''from langchain_community.tools import DuckDuckGoSearchRun'' @ [nl] @
              ''from crewai import Agent, Task, Crew, Process'' @ [nl, nl] @
              ''os.environ['' @ [dq] @ ''OPENAI_API_KEY'' @ [dq] @ ''] = '' @ [dq] @ ''your_OPENAI_api_key_here'' @ [dq, nl, nl] @
              ''ollama_openhermes = Ollama(model='' @ [dq] @ ''openhermes'' @ [dq] @ '')'' @ [nl] @
              ''search_tool = DuckDuckGoSearchRun()'' @ [nl, nl]
              @ concat (map (\<lambda>a. agent_name a @ '' = Agent('' @ [nl] @ agent_arguments a ''search_tool'' @ [nl]) agents)
              @ concat (map (\<lambda>a. task_name a @ '' = Task('' @ [nl] @ task_description_line a @
                                  '' agent='' @ agent_name a @ '','' @ [nl] @
                                  '' verbose=True,'' @ [nl] @ '')'' @ [nl, nl] @ [nl]) agents)
              @ ''crew = Crew('' @ [nl] @
              ''    agents=['' @ separated_by '', '' (map agent_name agents) @ ''],'' @ [nl] @
              ''    tasks=['' @ separated_by '', '' (map task_name agents) @ ''],'' @ [nl] @
              ''    verbose=True,'' @ [nl] @
              ''    process=Process.sequential,'' @ [nl] @
              '')'' @ [nl, nl] @
              ''# Kickoff the crew tasks'' @ [nl] @
              ''result = crew.kickoff()'' @ [nl, nl] @
              ''# Handle the '' @ [dq] @ ''result'' @ [dq] @ '' as needed'' @ [nl])\<rparr>))
       \<and> (\<forall>a. agent_name a = derive (the (a ''role'')) \<and> task_name a = ''task_'' @ derive (the (a ''role'')))"
  using emit_script_None [of e agents path w] emit_script_complete [OF _ assms, of agents w]
  by (auto simp only: script_text_spelled fst_conv agent_name_def task_name_def)

subsection \<open>Escaping in the string literals\<close>

definition quote_agent :: agent where
  "quote_agent =
     [''role'' \<mapsto> ''Ghost-Writer'',
      ''goal'' \<mapsto> ''write '' @ [dq] @ ''well'' @ [dq],
      ''backstory'' \<mapsto> ''the editor'' @ [sq] @ ''s '' @ [dq] @ ''pen'' @ [dq],
      ''assigned_task'' \<mapsto> '' don'' @ [sq] @ ''t stop '',
      ''allow_delegation'' \<mapsto> ''True'',
      ''filename'' \<mapsto> ''crew-1.csv'']"

text \<open>
  Claim C3, as amended. For every record with its five fields, the text emitted for it
  has, inside the string literals, every double quote and every single quote of the role
  and of the backstory after a backslash; of the assigned task, stripped of surrounding
  white space, every double quote after a backslash and the single quotes as they are;
  and the goal as it is.
\<close>

theorem quotes_escaped_in_literals:
  assumes "a ''role'' = Some role" and "a ''goal'' = Some goal" and "a ''backstory'' = Some backstory"
    and "a ''assigned_task'' = Some assigned_task" and "a ''allow_delegation'' = Some allow_delegation"
  shows "define_agent a search_tool =
           Inr (derive role @ '' = Agent('' @ [nl] @
                ''    role='' @ [dq] @ escape {dq, sq} role @ [dq] @ '','' @ [nl] @
                ''    goal='' @ [dq] @ goal @ [dq] @ '','' @ [nl] @
                ''    backstory='' @ [dq] @ escape {dq, sq} backstory @ [dq] @ '','' @ [nl] @
                ''    verbose=True,'' @ [nl] @
                ''    allow_delegation='' @ (if allow_delegation = ''True'' then ''True'' else ''False'') @ '','' @ [nl] @
                ''    llm=ollama_openhermes,'' @ [nl] @
                ''    tools=['' @ search_tool @ '']'' @ [nl] @
                '')'' @ [nl, nl])
       \<and> define_task a =
           Inr (''task_'' @ derive role @ '' = Task('' @ [nl] @
                '' description='' @ [dq] @ escape {dq} (strip assigned_task) @ [dq] @ '','' @ [nl] @
                '' agent='' @ derive role @ '','' @ [nl] @
                '' verbose=True,'' @ [nl] @
                '')'' @ [nl, nl])
       \<and> quotes_escaped {dq, sq} (escape {dq, sq} role)
       \<and> quotes_escaped {dq, sq} (escape {dq, sq} backstory)
       \<and> quotes_escaped {dq} (escape {dq} (strip assigned_task))"
proof -
  have c: "complete a"
    using assms by (simp add: complete_def)
  have "define_agent a search_tool = Inr (agent_block a search_tool)"
    using c by (rule define_agent_complete)
  moreover have "define_task a = Inr (task_block a)"
    using c by (rule define_task_complete)
  ultimately show ?thesis
    using assms
    by (simp add: agent_block_def task_block_def agent_name_def task_name_def quotes_escaped_escape)
qed

theorem quotes_escaped_in_literals_witness:
  "define_agent quote_agent ''search_tool'' =
           Inr (''Ghost_Writer = Agent('' @ [nl] @
                ''    role='' @ [dq] @ ''Ghost-Writer'' @ [dq] @ '','' @ [nl] @
                ''    goal='' @ [dq] @ ''write '' @ [dq] @ ''well'' @ [dq] @ [dq] @ '','' @ [nl] @
                ''    backstory='' @ [dq] @ ''the editor'' @ [bsl, sq] @ ''s '' @ [bsl, dq] @ ''pen'' @ [bsl, dq] @ [dq] @ '','' @ [nl] @
                ''    verbose=True,'' @ [nl] @
                ''    allow_delegation=True,'' @ [nl] @
                ''    llm=ollama_openhermes,'' @ [nl] @
                ''    tools=[search_tool]'' @ [nl] @
                '')'' @ [nl, nl])
   \<and> define_task quote_agent =
           Inr (''task_Ghost_Writer = Task('' @ [nl] @
                '' description='' @ [dq] @ ''don'' @ [sq] @ ''t stop'' @ [dq] @ '','' @ [nl] @
                '' agent=Ghost_Writer,'' @ [nl] @
                '' verbose=True,'' @ [nl] @
                '')'' @ [nl, nl])
   \<and> quotes_escaped {dq, sq} (''the editor'' @ [bsl, sq] @ ''s '' @ [bsl, dq] @ ''pen'' @ [bsl, dq])"
  using quotes_escaped_in_literals
          [of quote_agent "''Ghost-Writer''" "''write '' @ [dq] @ ''well'' @ [dq]"
              "''the editor'' @ [sq] @ ''s '' @ [dq] @ ''pen'' @ [dq]" "'' don'' @ [sq] @ ''t stop ''"
              "''True''" "''search_tool''"]
  by (simp add: quote_agent_def escape_def derive_def strip_def strip_chars_def whitespace_def)

text \<open>
  Claim C3 as stated has the single quotes of the assigned task escaped too. The task
  text of \<open>quote_agent\<close> holds a single quote, and \<open>define_task\<close> emits it with no
  backslash before it.
\<close>

theorem quotes_escaped_in_literals_counterexample:
  "define_task quote_agent =
           Inr (''task_Ghost_Writer = Task('' @ [nl] @
                '' description='' @ [dq] @ ''don'' @ [sq] @ ''t stop'' @ [dq] @ '','' @ [nl] @
                '' agent=Ghost_Writer,'' @ [nl] @
                '' verbose=True,'' @ [nl] @
                '')'' @ [nl, nl])
   \<and> \<not> quotes_escaped {dq, sq} (''don'' @ [sq] @ ''t stop'')"
  by (simp add: define_task_def quote_agent_def get_task_var_name_def replace_char_def strip_def
        strip_chars_def whitespace_def quotes_escaped_def)

subsection \<open>An example run\<close>

definition example_agents :: "agent list" where
  "example_agents =
     [agent_of_row [''Researcher'', ''find papers'', ''veteran analyst'', ''scan arxiv'', ''True''] ''crew-1.csv'',
      agent_of_row [''Tech Writer'', ''write it up'', ''poet'', ''draft'', ''False''] ''crew-1.csv'']"

definition plain_env :: env where
  "plain_env =
     \<lparr> csv_lib_reader = csv_reader,
       ollama_invoke = (\<lambda>n prompt. Inr example_response),
       strftime_now = (\<lambda>n. ''20240101-12000'' @ str_nat n),
       os_getcwd = ''/home/user/crews'',
       os_listdir = [''notes.txt'', ''crewai-autocrew-20231231-235959-plan-a-trip-1.csv''],
       stdin_input = Inr ''research AI safety'',
       latest_release = Inr None,
       set_iteration = remdups,
       open_for_writing = (\<lambda>path. None),
       str_format = (\<lambda>template overall_goal delimiter. Inr template),
       csv_writer_row = (\<lambda>row. join '','' row @ [cr, nl]),
       str_of_list = (\<lambda>paths. ''['' @ join '', '' (map (\<lambda>p. [sq] @ p @ [sq]) paths) @ '']'') \<rparr>"

definition empty_world :: world where
  "empty_world = \<lparr> printed = [], tracebacks = [], files = Map.empty, invoked = [], executed = [], clock_reads = 0 \<rparr>"

theorem emitted_names_consistent_witness:
  "emit_script plain_env example_agents ''crew-1.py'' empty_world =
     (None, empty_world\<lparr>files := [''crew-1.py'' \<mapsto>
        ''import os'' @ [nl] @
        ''from langchain_community.chat_models import ChatOpenAI'' @ [nl] @
        ''from langchain_community.llms import Ollama'' @ [nl] @
        ''from langchain_community.tools import DuckDuckGoSearchRun'' @ [nl] @
        ''from crewai import Agent, Task, Crew, Process'' @ [nl, nl] @
        ''os.environ['' @ [dq] @ ''OPENAI_API_KEY'' @ [dq] @ ''] = '' @ [dq] @ ''your_OPENAI_api_key_here'' @ [dq, nl, nl] @
        ''ollama_openhermes = Ollama(model='' @ [dq] @ ''openhermes'' @ [dq] @ '')'' @ [nl] @
        ''search_tool = DuckDuckGoSearchRun()'' @ [nl, nl] @
        ''Researcher = Agent('' @ [nl] @
        ''    role='' @ [dq] @ ''Researcher'' @ [dq] @ '','' @ [nl] @
        ''    goal='' @ [dq] @ ''find papers'' @ [dq] @ '','' @ [nl] @
        ''    backstory='' @ [dq] @ ''veteran analyst'' @ [dq] @ '','' @ [nl] @
        ''    verbose=True,'' @ [nl] @
        ''    allow_delegation=True,'' @ [nl] @
        ''    llm=ollama_openhermes,'' @ [nl] @
        ''    tools=[search_tool]'' @ [nl] @
        '')'' @ [nl, nl, nl] @
        ''Tech_Writer = Agent('' @ [nl] @
        ''    role='' @ [dq] @ ''Tech Writer'' @ [dq] @ '','' @ [nl] @
        ''    goal='' @ [dq] @ ''write it up'' @ [dq] @ '','' @ [nl] @
        ''    backstory='' @ [dq] @ ''poet'' @ [dq] @ '','' @ [nl] @
        ''    verbose=True,'' @ [nl] @
        ''    allow_delegation=False,'' @ [nl] @
        ''    llm=ollama_openhermes,'' @ [nl] @
        ''    tools=[search_tool]'' @ [nl] @
        '')'' @ [nl, nl, nl] @
        ''task_Researcher = Task('' @ [nl] @
        '' description='' @ [dq] @ ''scan arxiv'' @ [dq] @ '','' @ [nl] @
        '' agent=Researcher,'' @ [nl] @
        '' verbose=True,'' @ [nl] @
        '')'' @ [nl, nl, nl] @
        ''task_Tech_Writer = Task('' @ [nl] @
        '' description='' @ [dq] @ ''draft'' @ [dq] @ '','' @ [nl] @
        '' agent=Tech_Writer,'' @ [nl] @
        '' verbose=True,'' @ [nl] @
        '')'' @ [nl, nl, nl] @
        ''crew = Crew('' @ [nl] @
        ''    agents=[Researcher, Tech_Writer],'' @ [nl] @
        ''    tasks=[task_Researcher, task_Tech_Writer],'' @ [nl] @
        ''    verbose=True,'' @ [nl] @
        ''    process=Process.sequential,'' @ [nl] @
        '')'' @ [nl, nl] @
        ''# Kickoff the crew tasks'' @ [nl] @
        ''result = crew.kickoff()'' @ [nl, nl] @
        ''# Handle the '' @ [dq] @ ''result'' @ [dq] @ '' as needed'' @ [nl]]\<rparr>)"
proof -
  have c: "\<forall>a \<in> set example_agents. complete a"
    by (simp add: example_agents_def complete_def agent_of_row_def csv_header_def)
  have o: "open_for_writing plain_env ''crew-1.py'' = None"
    by (simp add: plain_env_def)
  from c emitted_names_consistent [OF o, of example_agents empty_world] show ?thesis
    by (simp add: empty_world_def example_agents_def agent_of_row_def csv_header_def agent_name_def
          task_name_def agent_arguments_def task_description_line_def separated_by_def escape_def
          derive_def strip_def strip_chars_def whitespace_def)
qed

text \<open>
  Claim C4 as stated covers every list of records. The parser returns the record below
  for a row of two fields, the role and the goal; for it the emitter raises KeyError at
  the backstory and leaves a file that holds the imports and the two tools only: no
  agent, no task and no crew.
\<close>

definition short_row_agents :: "agent list" where
  "short_row_agents =
     [[''goal'' \<mapsto> ''find papers'', ''role'' \<mapsto> ''Researcher'', ''filename'' \<mapsto> ''crew-1.csv'']]"

theorem emitted_names_consistent_counterexample:
  "parse_csv_data csv_reader short_row_response (CHR '','') ''crew-1.csv'' = Inr short_row_agents
   \<and> emit_script plain_env short_row_agents ''crew-1.py'' empty_world =
       (Some (KeyError ''backstory''), empty_world\<lparr>files := [''crew-1.py'' \<mapsto>
        ''import os'' @ [nl] @
        ''from langchain_community.chat_models import ChatOpenAI'' @ [nl] @
        ''from langchain_community.llms import Ollama'' @ [nl] @
        ''from langchain_community.tools import DuckDuckGoSearchRun'' @ [nl] @
        ''from crewai import Agent, Task, Crew, Process'' @ [nl, nl] @
        ''os.environ['' @ [dq] @ ''OPENAI_API_KEY'' @ [dq] @ ''] = '' @ [dq] @ ''your_OPENAI_api_key_here'' @ [dq, nl, nl] @
        ''ollama_openhermes = Ollama(model='' @ [dq] @ ''openhermes'' @ [dq] @ '')'' @ [nl] @
        ''search_tool = DuckDuckGoSearchRun()'' @ [nl, nl]]\<rparr>)"
proof -
  have "accepted csv_header [''Researcher'', ''find papers'']"
    by (simp add: accepted_def role_supplied_csv_header length_csv_header strip_chars_def)
  then have "parse_lines (header_indices csv_header) [[''Researcher'', ''find papers'']] ''crew-1.csv'' =
          Inr [(row_fields csv_header [''Researcher'', ''find papers''])(''filename'' \<mapsto> ''crew-1.csv'')]"
    using parse_lines_accepted [of "[[''Researcher'', ''find papers'']]" csv_header "''crew-1.csv''"] by simp
  moreover have "(row_fields csv_header [''Researcher'', ''find papers''])(''filename'' \<mapsto> ''crew-1.csv'') =
          [''goal'' \<mapsto> ''find papers'', ''role'' \<mapsto> ''Researcher'', ''filename'' \<mapsto> ''crew-1.csv'']"
    unfolding row_fields_csv_header by (simp add: csv_header_def strip_chars_def)
  ultimately have parsed:
    "parse_csv_data csv_reader short_row_response (CHR '','') ''crew-1.csv'' = Inr short_row_agents"
    using short_row_response_rows by (simp add: parse_csv_data_def short_row_agents_def)
  have "emit_script plain_env short_row_agents ''crew-1.py'' empty_world =
       (Some (KeyError ''backstory''), empty_world\<lparr>files := [''crew-1.py'' \<mapsto>
        ''import os'' @ [nl] @
        ''from langchain_community.chat_models import ChatOpenAI'' @ [nl] @
        ''from langchain_community.llms import Ollama'' @ [nl] @
        ''from langchain_community.tools import DuckDuckGoSearchRun'' @ [nl] @
        ''from crewai import Agent, Task, Crew, Process'' @ [nl, nl] @
        ''os.environ['' @ [dq] @ ''OPENAI_API_KEY'' @ [dq] @ ''] = '' @ [dq] @ ''your_OPENAI_api_key_here'' @ [dq, nl, nl] @
        ''ollama_openhermes = Ollama(model='' @ [dq] @ ''openhermes'' @ [dq] @ '')'' @ [nl] @
        ''search_tool = DuckDuckGoSearchRun()'' @ [nl, nl]]\<rparr>)"
    by (simp add: emit_script_def write_crewai_script_def short_row_agents_def plain_env_def
          define_agent_def script_preamble_def empty_world_def)
  with parsed show ?thesis by simp
qed

section \<open>Files, the clock and the model client\<close>

text \<open>\<^verbatim>\<open>str(e)\<close> of an exception, as \<^verbatim>\<open>print(f'Error: {e}')\<close> shows it.\<close>

fun str_error :: "error \<Rightarrow> string" where
  "str_error (ValueError msg) = msg"
| "str_error IndexError = ''list index out of range''"
| "str_error (KeyError k) = [sq] @ k @ [sq]"
| "str_error (OSError msg) = msg"
| "str_error (LibraryError msg) = msg"

text \<open>
  A file opened with \<^verbatim>\<open>open(path, 'r')\<close> is read with universal newlines: \<open>CR LF\<close> and a
  lone \<open>CR\<close> arrive as \<open>LF\<close>.
\<close>

fun universal_newlines :: "string \<Rightarrow> string" where
  "universal_newlines [] = []"
| "universal_newlines [c] = (if c = cr then [nl] else [c])"
| "universal_newlines (c # d # cs) =
     (if c = cr then (if d = nl then nl # universal_newlines cs else nl # universal_newlines (d # cs))
      else c # universal_newlines (d # cs))"

text \<open>\<^verbatim>\<open>os.path.basename\<close> and \<^verbatim>\<open>os.path.join\<close> of two parts, on POSIX paths.\<close>

definition basename :: "string \<Rightarrow> string" where
  "basename p = rev (takeWhile (\<lambda>c. c \<noteq> CHR ''/'') (rev p))"

definition path_join :: "string \<Rightarrow> string \<Rightarrow> string" where
  "path_join a b =
     (if startswith b ''/'' then b
      else if a = [] \<or> endswith a ''/'' then a @ b
      else a @ ''/'' @ b)"

text \<open>
  \<^verbatim>\<open>ollama.invoke(prompt)\<close>: the prompt is recorded, the reply (or the exception) is the
  oracle's. \<^verbatim>\<open>datetime.now().strftime(...)\<close> reads the clock. \<^verbatim>\<open>open(path, 'w')\<close> followed
  by one \<^verbatim>\<open>write\<close> replaces the content of the file. \<^verbatim>\<open>input(prompt)\<close> shows the prompt
  and returns the line typed.
\<close>

definition invoke :: "env \<Rightarrow> string \<Rightarrow> world \<Rightarrow> (error + string) \<times> world" where
  "invoke e prompt w = (ollama_invoke e (length (invoked w)) prompt, w\<lparr>invoked := invoked w @ [prompt]\<rparr>)"

definition now_stamp :: "env \<Rightarrow> world \<Rightarrow> string \<times> world" where
  "now_stamp e w = (strftime_now e (clock_reads w), w\<lparr>clock_reads := Suc (clock_reads w)\<rparr>)"

definition write_file :: "env \<Rightarrow> string \<Rightarrow> string \<Rightarrow> world \<Rightarrow> error option \<times> world" where
  "write_file e path content w =
     (case open_for_writing e path of
        Some err \<Rightarrow> (Some err, w)
      | None \<Rightarrow> (None, w\<lparr>files := (files w)(path \<mapsto> content)\<rparr>))"

definition input_line :: "env \<Rightarrow> string \<Rightarrow> world \<Rightarrow> (error + string) \<times> world" where
  "input_line e prompt w = (stdin_input e, print_line prompt w)"

text \<open>The handler \<^verbatim>\<open>except Exception as e\<close> of \<open>main\<close>: the message, then the traceback.\<close>

definition report_error :: "error \<Rightarrow> world \<Rightarrow> world" where
  "report_error err w = (print_line (''Error: '' @ str_error err) w)\<lparr>tracebacks := tracebacks w @ [err]\<rparr>"

section \<open>PromptBuilder and the saved response\<close>

text \<open>\<open>get_agent_data\<close> (lines 23 to 32): the instruction is built, formatted once more, and sent.\<close>

definition instruction_text :: "string \<Rightarrow> char \<Rightarrow> string" where
  "instruction_text overall_goal delimiter =
     ''Create a dataset in a CSV format with each field enclosed in double quotes, for a team of agents with the goal: ''
       @ [dq] @ overall_goal @ [dq] @ ''. '' @
     ''Use the delimiter '' @ [dq] @ [delimiter] @ [dq] @ '' to separate the fields. '' @
     ''Include columns '' @ [dq] @ ''role'' @ [dq] @ '', '' @ [dq] @ ''goal'' @ [dq] @ '', '' @ [dq] @ ''backstory'' @ [dq]
       @ '', '' @ [dq] @ ''assigned_task'' @ [dq] @ '', '' @ [dq] @ ''allow_delegation'' @ [dq] @ ''. '' @
     ''Each agent'' @ [sq] @ ''s details should be in quotes to avoid confusion with the delimiter. '' @
     ''Provide a single-word role, specific goal, brief backstory, assigned task, and delegation ability (True/False) for each agent.''"

definition get_agent_data :: "env \<Rightarrow> string \<Rightarrow> char \<Rightarrow> world \<Rightarrow> (error + string) \<times> world" where
  "get_agent_data e overall_goal delimiter w =
     (case str_format e (instruction_text overall_goal delimiter) overall_goal delimiter of
        Inl err \<Rightarrow> (Inl err, w)
      | Inr prompt \<Rightarrow> invoke e prompt w)"

text \<open>\<open>save_csv_output\<close> (lines 35 to 41).\<close>

definition save_csv_output :: "env \<Rightarrow> string \<Rightarrow> string \<Rightarrow> nat \<Rightarrow> world \<Rightarrow> (error + string) \<times> world" where
  "save_csv_output e response overall_goal index w =
     (let (timestamp, w1) = now_stamp e w;
          file_name = ''crewai-autocrew-'' @ timestamp @ ''-'' @ replace_char (CHR '' '') ''-'' (take 40 overall_goal)
                      @ ''-'' @ str_nat index @ ''.csv'';
          file_path = path_join (os_getcwd e) file_name
      in case write_file e file_path response w1 of
           (Some err, w2) \<Rightarrow> (Inl err, w2)
         | (None, w2) \<Rightarrow> (Inr file_path, w2))"

section \<open>RankingRequester: \<open>rank_crews\<close>\<close>

definition shared_header :: string where
  "shared_header = ''filename,role,goal,backstory,assigned_task,allow_delegation'' @ [nl]"

text \<open>
  The loop of lines 170 to 184 over the paths, with the text concatenated so far. A path
  with \<open>ranking\<close> in its lower-cased text is skipped; a file that cannot be read raises.
\<close>

fun concatenate_csv :: "string list \<Rightarrow> string \<Rightarrow> world \<Rightarrow> (error + string) \<times> world" where
  "concatenate_csv [] concatenated_csv_data w = (Inr concatenated_csv_data, w)"
| "concatenate_csv (file_path # rest) concatenated_csv_data w =
     (if contains (lower file_path) ''ranking'' then concatenate_csv rest concatenated_csv_data w
      else (let w1 = print_line ([nl] @ ''Processing CSV: '' @ file_path) w
            in case files w1 file_path of
                 None \<Rightarrow> (Inl (OSError (''[Errno 2] No such file or directory: '' @ [sq] @ file_path @ [sq])), w1)
               | Some content \<Rightarrow>
                   (let csv_data = universal_newlines content;
                        filename = basename file_path;
                        csv_data_with_filename =
                          join [nl] (map (\<lambda>row. filename @ '','' @ row) (split_on nl (strip csv_data)))
                    in concatenate_csv rest (concatenated_csv_data @ csv_data_with_filename @ [nl]) w1)))"

definition ranking_prompt :: "string \<Rightarrow> string \<Rightarrow> string" where
  "ranking_prompt overall_goal concatenated_csv_data =
     ''From a list of crews, you need to provide identify which crew is most likely to successfully complete the task: ''
       @ overall_goal @ ''. '' @
     ''Each crew contains agents and tasks. The list of all agents is here: '' @ concatenated_csv_data @ ''. '' @
     ''In this list, the information in the filename column is the crew name. '' @
     ''I want you to return a CSV with the following columns: crewname, rank, explanation, recommendation. '' @
     ''In rank, assign 1 to your preferred crew. In explanation, explain why you assigned this rank to this particular crew. '' @
     ''In recommendation, outline changes that would further improve the performance of this crew.''"

definition overall_summary_text :: "string list \<Rightarrow> string \<Rightarrow> string \<Rightarrow> string" where
  "overall_summary_text csv_file_paths ranked_crew critique =
     [nl, nl] @ ''Crews in the following CSV files:'' @ [nl] @
     concat (map (\<lambda>file_path. file_path @ [nl]) csv_file_paths) @
     ''Ranking: '' @ ranked_crew @ [nl] @
     ''Critique: '' @ critique @ [nl] @
     [nl] @ ''Overall Summary:'' @ [nl] @
     ''Ollama has ranked the crews based on their likelihood of success.'' @ [nl] @
     ''It has provided a critique for each crew, highlighting their strengths and weaknesses.'' @ [nl] @
     ''The ranking and critique can be used to make informed decisions about the crews.'' @ [nl]"

type_synonym ranked_crew = "string list \<times> string \<times> string"

definition rank_crews ::
  "env \<Rightarrow> string list \<Rightarrow> string \<Rightarrow> world \<Rightarrow> (error + ranked_crew list \<times> string) \<times> world" where
  "rank_crews e paths overall_goal w =
     (let csv_file_paths = set_iteration e paths;
          w1 = print_line ''Invoking Ollama...'' w
      in case concatenate_csv csv_file_paths shared_header w1 of
           (Inl err, w2) \<Rightarrow> (Inl err, w2)
         | (Inr concatenated_csv_data, w2) \<Rightarrow>
             (let w3 = print_line concatenated_csv_data (print_line ([nl] @ ''Concatenated CSV Data:'') w2)
              in case invoke e (ranking_prompt overall_goal concatenated_csv_data) w3 of
                   (Inl err, w4) \<Rightarrow> (Inl err, w4)
                 | (Inr ranked_crew, w4) \<Rightarrow>
                     (let w5 = print_line ranked_crew (print_line ([nl] @ ''Ollama Ranking:'') w4);
                          critique = ranked_crew;
                          w6 = print_line critique (print_line ([nl] @ ''Ollama Critique:'') w5)
                      in (Inr ([(csv_file_paths, ranked_crew, critique)],
                               overall_summary_text csv_file_paths ranked_crew critique), w6))))"


section \<open>RunLoop: \<open>main\<close>\<close>

text \<open>The parsed command line: \<^verbatim>\<open>overall_goal\<close>, \<^verbatim>\<open>--auto_run\<close>, \<^verbatim>\<open>--multiple\<close>, \<^verbatim>\<open>--ranking\<close>.\<close>

record args =
  arg_overall_goal :: "string option"
  arg_auto_run :: bool
  arg_multiple :: "int option"
  arg_ranking :: bool

definition autocrew_version :: string where
  "autocrew_version = ''1.1.1''"

text \<open>\<open>check_latest_version\<close> (lines 140 to 155): a failure is printed and swallowed.\<close>

definition check_latest_version :: "env \<Rightarrow> world \<Rightarrow> string option \<times> world" where
  "check_latest_version e w =
     (case latest_release e of
        Inl msg \<Rightarrow> (None, print_line (''Error checking the latest version: '' @ msg) w)
      | Inr latest_version \<Rightarrow> (latest_version, w))"

text \<open>
  One round of the loop of lines 277 to 304, for the index \<open>i\<close>: the path of the saved
  response, or the exception that ends the loop.
\<close>

definition generate_script :: "env \<Rightarrow> bool \<Rightarrow> string \<Rightarrow> nat \<Rightarrow> world \<Rightarrow> (error + string) \<times> world" where
  "generate_script e auto overall_goal i w =
     (case get_agent_data e overall_goal (CHR '','') w of
        (Inl err, w1) \<Rightarrow> (Inl err, w1)
      | (Inr response, w1) \<Rightarrow>
          (if response = [] then (Inl (ValueError ''No response from Ollama''), w1)
           else (case save_csv_output e response overall_goal (i + 1) w1 of
                   (Inl err, w2) \<Rightarrow> (Inl err, w2)
                 | (Inr file_path, w2) \<Rightarrow>
                     (case parse_csv_data (csv_lib_reader e) response (CHR '','') file_path of
                        Inl err \<Rightarrow> (Inl err, w2)
                      | Inr agents_data \<Rightarrow>
                          (if agents_data = [] then (Inl (ValueError ''No agent data parsed''), w2)
                           else (let (timestamp, w3) = now_stamp e w2;
                                     overall_goal_filename = replace_char (CHR '' '') ''-'' (take 50 overall_goal);
                                     file_name = ''crewai-autocrew-'' @ timestamp @ ''-'' @ overall_goal_filename
                                                 @ ''-'' @ str_nat (i + 1) @ ''.py'';
                                     crewai_script_path = path_join (os_getcwd e) file_name
                                 in case emit_script e agents_data crewai_script_path w3 of
                                      (Some err, w4) \<Rightarrow> (Inl err, w4)
                                    | (None, w4) \<Rightarrow>
                                        (let w5 = print_line ([nl] @ ''Script '' @ str_nat (i + 1) @ '' written to ''
                                                              @ crewai_script_path) w4;
                                             w6 = (if auto
                                                   then (print_line ([nl] @ ''Running script '' @ str_nat (i + 1) @ ''...'') w5)
                                                          \<lparr>executed := executed w5 @ [''python3 '' @ crewai_script_path]\<rparr>
                                                   else w5)
                                         in (Inr file_path, w6))))))))"

text \<open>The loop \<^verbatim>\<open>for i in range(num_scripts)\<close>, over the indices still to come.\<close>

fun generate_scripts ::
  "env \<Rightarrow> bool \<Rightarrow> string \<Rightarrow> nat list \<Rightarrow> string list \<Rightarrow> world \<Rightarrow> (error + string list) \<times> world" where
  "generate_scripts e auto overall_goal [] csv_file_paths w = (Inr csv_file_paths, w)"
| "generate_scripts e auto overall_goal (i # rest) csv_file_paths w =
     (case generate_script e auto overall_goal i w of
        (Inl err, w1) \<Rightarrow> (Inl err, w1)
      | (Inr file_path, w1) \<Rightarrow> generate_scripts e auto overall_goal rest (csv_file_paths @ [file_path]) w1)"

text \<open>Lines 306 to 326: the ranking of the crews of a multiple run, saved and sent back.\<close>

definition rank_and_save :: "env \<Rightarrow> string list \<Rightarrow> string \<Rightarrow> world \<Rightarrow> error option \<times> world" where
  "rank_and_save e csv_file_paths overall_goal w =
     (case rank_crews e csv_file_paths overall_goal w of
        (Inl err, w1) \<Rightarrow> (Some err, w1)
      | (Inr (ranked_crews, overall_summary), w1) \<Rightarrow>
          (let (timestamp, w2) = now_stamp e w1;
               overall_goal_filename = replace_char (CHR '' '') ''-'' (take 50 overall_goal);
               ranked_crews_file_name = ''crewai-autocrew-'' @ timestamp @ ''-'' @ overall_goal_filename @ ''-ranking.csv'';
               ranked_crews_file_path = path_join (os_getcwd e) ranked_crews_file_name;
               content = csv_writer_row e [''CSV File'', ''Ranking'', ''Critique'']
                         @ concat (map (\<lambda>(paths, ranked_crew, critique).
                                          csv_writer_row e [str_of_list e paths, ranked_crew, critique]) ranked_crews)
           in case write_file e ranked_crews_file_path content w2 of
                (Some err, w3) \<Rightarrow> (Some err, w3)
              | (None, w3) \<Rightarrow>
                  (let w4 = print_line ([nl] @ ''Ranked crews saved as '' @ ranked_crews_file_path) w3;
                       w5 = print_line ([nl] @ ''Overall Summary:'') w4;
                       w6 = print_line overall_summary w5
                   in case invoke e overall_summary w6 of
                        (Inl err, w7) \<Rightarrow> (Some err, w7)
                      | (Inr reply, w7) \<Rightarrow> (None, w7))))"

text \<open>Lines 223 to 231 of \<open>main\<close>: the banner and the version check.\<close>

definition banner :: "env \<Rightarrow> world \<Rightarrow> world" where
  "banner e w =
     (let w1 = print_line [] w;
          w2 = print_line (''Autocrew (v'' @ autocrew_version @ '') for CrewAI '') w1;
          (latest_version, w3) = check_latest_version e w2;
          w4 = (case latest_version of
                  None \<Rightarrow> w3
                | Some v \<Rightarrow>
                    (if v \<noteq> [] \<and> v \<noteq> autocrew_version
                     then print_line ([nl, esc] @ ''[1mNew version available: '' @ v @ [esc] @ ''[0m'') w3
                     else w3));
          w5 = print_line ([nl] @ ''To see the available command line parameters, type: python3 crewai-autocrew.py -h'') w4
      in print_line [] w5)"

text \<open>Lines 244 to 262 of \<open>main\<close>: ranking only.\<close>

definition ranking_only :: "env \<Rightarrow> args \<Rightarrow> world \<Rightarrow> error option \<times> world" where
  "ranking_only e a w =
     (case (case arg_overall_goal a of
              None \<Rightarrow> input_line e ''Please specify the overall goal: '' w
            | Some g \<Rightarrow> (if g \<noteq> [] then (Inr g, w)
                         else input_line e ''Please specify the overall goal: '' w)) of
        (Inl err, w1) \<Rightarrow> (Some err, w1)
      | (Inr overall_goal, w1) \<Rightarrow>
          (let csv_file_paths =
                 filter (\<lambda>file. startswith file ''crewai-autocrew-'' \<and> endswith file ''.csv''
                                 \<and> contains file overall_goal) (os_listdir e)
           in if csv_file_paths = []
              then (None, print_line (''No CSV files found for the provided overall goal: '' @ overall_goal) w1)
              else (case rank_crews e csv_file_paths overall_goal w1 of
                      (Inl err, w2) \<Rightarrow> (None, report_error err w2)
                    | (Inr ranked, w2) \<Rightarrow> (None, w2))))"

text \<open>Lines 264 to 330 of \<open>main\<close>: the scripts are generated and, for more than one, ranked.\<close>

definition generation :: "env \<Rightarrow> args \<Rightarrow> world \<Rightarrow> error option \<times> world" where
  "generation e a w =
     (case (case arg_overall_goal a of
              None \<Rightarrow> input_line e ([esc] @ ''[1mPlease specify the overall goal:'' @ [esc] @ ''[0m '') w
            | Some g \<Rightarrow> (Inr g, w)) of
        (Inl err, w1) \<Rightarrow> (Some err, w1)
      | (Inr overall_goal, w1) \<Rightarrow>
          (let num_scripts = (case arg_multiple a of
                                None \<Rightarrow> 1
                              | Some n \<Rightarrow> (if n \<noteq> 0 then n else 1))
           in case generate_scripts e (arg_auto_run a) overall_goal [0..<nat num_scripts] [] w1 of
                (Inl err, w2) \<Rightarrow> (None, report_error err w2)
              | (Inr csv_file_paths, w2) \<Rightarrow>
                  (if num_scripts > 1
                   then (case rank_and_save e csv_file_paths overall_goal w2 of
                           (Some err, w3) \<Rightarrow> (None, report_error err w3)
                         | (None, w3) \<Rightarrow> (None, w3))
                   else (None, w2))))"

text \<open>
  \<open>main\<close> (lines 222 to 330), after \<^verbatim>\<open>parse_args\<close>. The result is the exception that
  leaves \<open>main\<close>, if any, and the world afterwards.
\<close>

definition main :: "env \<Rightarrow> args \<Rightarrow> world \<Rightarrow> error option \<times> world" where
  "main e a w =
     (let w1 = banner e w
      in if (case arg_multiple a of None \<Rightarrow> False | Some n \<Rightarrow> n \<noteq> 0) \<and> arg_auto_run a
         then (Some (ValueError ''The -m and -a command line parameters must not be used simultaneously''), w1)
         else if arg_ranking a then ranking_only e a w1
         else generation e a w1)"

section \<open>Fail fast on incompatible flags\<close>

lemma banner_effects:
  "invoked (banner e w) = invoked w \<and> files (banner e w) = files w \<and> executed (banner e w) = executed w"
  by (simp add: banner_def check_latest_version_def print_line_def Let_def
           split: sum.splits option.splits prod.splits)

text \<open>
  Claim C6. When the multiple flag is given with a count that is not zero together with
  the auto-run flag, \<open>main\<close> raises the configuration error
  \<open>The -m and -a command line parameters must not be used simultaneously\<close>, and at
  that moment no prompt has been given to the model client, no file has been written
  and no script has been run.
\<close>

theorem incompatible_flags_fail_fast:
  assumes "arg_multiple a = Some n" and "n \<noteq> 0" and "arg_auto_run a"
  shows "fst (main e a w) =
           Some (ValueError ''The -m and -a command line parameters must not be used simultaneously'')
       \<and> invoked (snd (main e a w)) = invoked w
       \<and> files (snd (main e a w)) = files w
       \<and> executed (snd (main e a w)) = executed w"
  using assms by (simp add: main_def banner_effects)

section \<open>Ranking only, with nothing to rank\<close>

lemma ranking_only_no_files:
  assumes "(arg_overall_goal a = Some goal \<and> goal \<noteq> [])
         \<or> ((arg_overall_goal a = None \<or> arg_overall_goal a = Some []) \<and> stdin_input e = Inr goal)"
    and "filter (\<lambda>file. startswith file ''crewai-autocrew-'' \<and> endswith file ''.csv''
                              \<and> contains file goal) (os_listdir e) = []"
  shows "\<exists>w1. ranking_only e a w = (None, print_line (''No CSV files found for the provided overall goal: '' @ goal) w1)
              \<and> invoked w1 = invoked w \<and> files w1 = files w"
proof -
  consider (given) "arg_overall_goal a = Some goal" "goal \<noteq> []"
    | (asked) "arg_overall_goal a = None \<or> arg_overall_goal a = Some []" "stdin_input e = Inr goal"
    using assms(1) by blast
  then show ?thesis
  proof cases
    case given
    then have "ranking_only e a w =
        (None, print_line (''No CSV files found for the provided overall goal: '' @ goal) w)"
      using assms(2) by (simp add: ranking_only_def)
    then show ?thesis by blast
  next
    case asked
    let ?w1 = "print_line ''Please specify the overall goal: '' w"
    have "ranking_only e a w =
        (None, print_line (''No CSV files found for the provided overall goal: '' @ goal) ?w1)"
      using asked assms(2) by (auto simp add: ranking_only_def input_line_def)
    moreover have "invoked ?w1 = invoked w \<and> files ?w1 = files w"
      by (simp add: print_line_def)
    ultimately show ?thesis by blast
  qed
qed

text \<open>
  Claim C7. In ranking mode (and without the two incompatible flags together), with the
  goal given on the command line or, failing that, typed at the prompt: when no name in
  the working directory starts with \<open>crewai-autocrew-\<close>, ends with \<open>.csv\<close> and contains
  the goal, \<open>main\<close> prints \<open>No CSV files found for the provided overall goal\<close> with the
  goal as its last output and returns; no prompt has been given to the model client and
  no file has been written.
\<close>

theorem ranking_without_files_stops:
  assumes "arg_ranking a"
    and "\<not> ((case arg_multiple a of None \<Rightarrow> False | Some n \<Rightarrow> n \<noteq> 0) \<and> arg_auto_run a)"
    and "(arg_overall_goal a = Some goal \<and> goal \<noteq> [])
         \<or> ((arg_overall_goal a = None \<or> arg_overall_goal a = Some []) \<and> stdin_input e = Inr goal)"
    and "\<forall>file \<in> set (os_listdir e).
           \<not> (startswith file ''crewai-autocrew-'' \<and> endswith file ''.csv'' \<and> contains file goal)"
  shows "fst (main e a w) = None
       \<and> last (printed (snd (main e a w))) = ''No CSV files found for the provided overall goal: '' @ goal
       \<and> invoked (snd (main e a w)) = invoked w
       \<and> files (snd (main e a w)) = files w"
proof -
  have none: "filter (\<lambda>file. startswith file ''crewai-autocrew-'' \<and> endswith file ''.csv''
                              \<and> contains file goal) (os_listdir e) = []"
    using assms(4) by (simp add: filter_empty_conv)
  obtain w1 where r: "ranking_only e a (banner e w) =
        (None, print_line (''No CSV files found for the provided overall goal: '' @ goal) w1)"
      and i: "invoked w1 = invoked (banner e w)" and f: "files w1 = files (banner e w)"
    using ranking_only_no_files [OF assms(3) none, of "banner e w"] by blast
  have "main e a w = ranking_only e a (banner e w)"
    using assms(1,2) by (auto simp add: main_def Let_def)
  then show ?thesis
    using r i f by (simp add: print_line_def banner_effects)
qed


section \<open>Example command lines\<close>

definition clashing_args :: args where
  "clashing_args =
     \<lparr> arg_overall_goal = Some ''research AI safety'', arg_auto_run = True, arg_multiple = Some 3,
       arg_ranking = False \<rparr>"

theorem incompatible_flags_fail_fast_witness:
  "fst (main plain_env clashing_args empty_world) =
     Some (ValueError ''The -m and -a command line parameters must not be used simultaneously'')
   \<and> invoked (snd (main plain_env clashing_args empty_world)) = []
   \<and> files (snd (main plain_env clashing_args empty_world)) = Map.empty
   \<and> executed (snd (main plain_env clashing_args empty_world)) = []"
  using incompatible_flags_fail_fast [of clashing_args 3 plain_env empty_world]
  by (simp add: clashing_args_def empty_world_def)

definition ranking_args :: args where
  "ranking_args =
     \<lparr> arg_overall_goal = Some ''research AI safety'', arg_auto_run = False, arg_multiple = None,
       arg_ranking = True \<rparr>"

theorem ranking_without_files_stops_witness:
  "fst (main plain_env ranking_args empty_world) = None
   \<and> last (printed (snd (main plain_env ranking_args empty_world))) =
       ''No CSV files found for the provided overall goal: research AI safety''
   \<and> invoked (snd (main plain_env ranking_args empty_world)) = []
   \<and> files (snd (main plain_env ranking_args empty_world)) = Map.empty"
proof -
  have r: "arg_ranking ranking_args"
    by (simp add: ranking_args_def)
  have m: "\<not> ((case arg_multiple ranking_args of None \<Rightarrow> False | Some n \<Rightarrow> n \<noteq> 0)
               \<and> arg_auto_run ranking_args)"
    by (simp add: ranking_args_def)
  have g: "(arg_overall_goal ranking_args = Some ''research AI safety'' \<and> ''research AI safety'' \<noteq> [])
         \<or> ((arg_overall_goal ranking_args = None \<or> arg_overall_goal ranking_args = Some [])
             \<and> stdin_input plain_env = Inr ''research AI safety'')"
    by (simp add: ranking_args_def)
  have l: "\<forall>file \<in> set (os_listdir plain_env).
           \<not> (startswith file ''crewai-autocrew-'' \<and> endswith file ''.csv''
              \<and> contains file ''research AI safety'')"
    by (simp add: plain_env_def)
  from ranking_without_files_stops [OF r m g l, of empty_world] show ?thesis
    by (simp add: empty_world_def)
qed

section \<open>The text sent for ranking\<close>


definition file_rows :: "(string \<rightharpoonup> string) \<Rightarrow> string \<Rightarrow> string list" where
  "file_rows fs p = split_on nl (strip (universal_newlines (the (fs p))))"

definition file_block :: "(string \<rightharpoonup> string) \<Rightarrow> string \<Rightarrow> string" where
  "file_block fs p = concat (map (\<lambda>row. basename p @ '','' @ row @ [nl]) (file_rows fs p))"









lemma split_on_nonempty: "split_on c s \<noteq> []"
  by (induction s) (auto split: list.splits)

lemma join_sep: "xs \<noteq> [] \<Longrightarrow> join sep xs @ sep = concat (map (\<lambda>x. x @ sep) xs)"
  by (induction sep xs rule: join.induct) simp_all

lemma join_lines: "xs \<noteq> [] \<Longrightarrow> join [nl] xs @ [nl] = concat (map (\<lambda>x. x @ [nl]) xs)"
  by (rule join_sep)

lemma csv_data_with_filename:
  "join [nl] (map (\<lambda>row. basename p @ '','' @ row) (file_rows fs p)) @ [nl] = file_block fs p"
proof -
  have "map (\<lambda>row. basename p @ '','' @ row) (file_rows fs p) \<noteq> []"
    by (simp add: file_rows_def split_on_nonempty)
  then show ?thesis
    by (simp add: join_lines file_block_def comp_def)
qed















subsection \<open>An example ranking\<close>





end
